theory Spec2Isabelle
  imports Complex_Main
begin

section \<open>The grid-code core\<close>

text \<open>
  The routes file requires \<^verbatim>\<open>getDigiPin\<close> and \<^verbatim>\<open>getLatLngFromDigiPin\<close> from
  \<^verbatim>\<open>../digipin\<close>. That module is not among the source files, so the encoder and
  the decoder below follow sections 3, 4 and 7 of the specification. The specification
  names its constants (root bounding box, symbol grid, depth \<open>L\<close>, separator) without
  giving their values, so they are the fields of a configuration record. Coordinates
  are real numbers, as the specification states them; the rounding of the platform's
  floating-point arithmetic is not part of this model.
\<close>

subsection \<open>Data model\<close>

text \<open>
  Modelled from the spec: section 3, the BoundingBox of the absent \<^verbatim>\<open>digipin\<close>
  module, the region still consistent with the location at the current level.
\<close>

record bounding_box =
  minLat :: real
  maxLat :: real
  minLon :: real
  maxLon :: real

text \<open>
  Modelled from the spec: section 3, the SymbolGrid, a table of rows of characters, and
  the process-wide constants of the absent module: root box, table, depth \<open>L\<close> and
  separator character.
\<close>

type_synonym symbol_grid = "char list list"

record config =
  root :: bounding_box
  grid :: symbol_grid
  levels :: nat
  separator :: char

text \<open>
  Modelled from the spec: sections 4.1 and 7, the failure kinds of the absent module.
  \<open>CoordinateOutOfRange\<close> identifies the axis and the bound that was violated.
  \<open>TableIndexOutOfRange\<close> is not a kind of section 7: it is the outcome of a
  symbol-table lookup whose index is outside the table, which the specification says
  clamping excludes.
\<close>

datatype axis = Latitude | Longitude

datatype bound = Below | Above

datatype core_error =
    CoordinateOutOfRange axis bound
  | InvalidCodeLength
  | InvalidCodeSymbol
  | TableIndexOutOfRange

text \<open>
  Modelled from the spec: section 4.2, the decoder's result, the final box and its
  midpoint.
\<close>

record decoded =
  cell :: bounding_box
  midLat :: real
  midLon :: real

text \<open>
  Modelled from the spec: section 3, the invariant of a bounding box, and a coordinate
  lying inside a box, bounds included.
\<close>

definition box_ok :: "bounding_box \<Rightarrow> bool" where
  "box_ok b \<longleftrightarrow> minLat b < maxLat b \<and> minLon b < maxLon b"

definition in_box :: "bounding_box \<Rightarrow> real \<Rightarrow> real \<Rightarrow> bool" where
  "in_box b lat lon \<longleftrightarrow>
     minLat b \<le> lat \<and> lat \<le> maxLat b \<and> minLon b \<le> lon \<and> lon \<le> maxLon b"

text \<open>Modelled from the spec: section 3, the alphabet, the entries of the SymbolGrid.\<close>

definition alphabet :: "config \<Rightarrow> char set" where
  "alphabet cfg = set (concat (grid cfg))"

text \<open>
  Modelled from the spec: section 3, the invariants of the constants: a root box with
  positive extent, a 4 by 4 table of 16 distinct symbols, a separator that is not a
  symbol (it carries no information and is stripped before decoding), and a depth that
  reaches both separator positions (a code has \<open>L\<close> symbols and 2 separators).
\<close>

definition config_ok :: "config \<Rightarrow> bool" where
  "config_ok cfg \<longleftrightarrow>
     box_ok (root cfg) \<and>
     length (grid cfg) = 4 \<and> list_all (\<lambda>r. length r = 4) (grid cfg) \<and>
     distinct (concat (grid cfg)) \<and>
     separator cfg \<notin> set (concat (grid cfg)) \<and>
     6 \<le> levels cfg"

subsection \<open>Subdivision\<close>

text \<open>
  Modelled from the spec: section 4.1, step 3, of the encoder in the absent
  \<^verbatim>\<open>digipin\<close> module: an index is clamped into 0..3.
\<close>

definition clamp03 :: "int \<Rightarrow> int" where
  "clamp03 i = max 0 (min i 3)"

text \<open>
  Modelled from the spec: section 4.1, steps 1 and 2, of the encoder in the absent
  module. The box is cut into 4 by 4 equal cells; the row falls as the latitude rises,
  the column rises with the longitude. These are the indices before clamping.
\<close>

definition raw_row :: "bounding_box \<Rightarrow> real \<Rightarrow> int" where
  "raw_row b lat = 3 - \<lfloor>(lat - minLat b) / ((maxLat b - minLat b) / 4)\<rfloor>"

definition raw_col :: "bounding_box \<Rightarrow> real \<Rightarrow> int" where
  "raw_col b lon = \<lfloor>(lon - minLon b) / ((maxLon b - minLon b) / 4)\<rfloor>"

text \<open>
  Modelled from the spec: section 4.1, steps 2 and 3 together, the cell that a level of
  the absent encoder selects: the clamped row and column.
\<close>

definition cell_index :: "bounding_box \<Rightarrow> real \<Rightarrow> real \<Rightarrow> int \<times> int" where
  "cell_index b lat lon = (clamp03 (raw_row b lat), clamp03 (raw_col b lon))"

text \<open>
  Modelled from the spec: section 4.1, step 5, the narrowing rule that encoder and
  decoder share. Row 0 is the cell of highest latitude.
\<close>

definition narrow :: "bounding_box \<Rightarrow> int \<times> int \<Rightarrow> bounding_box" where
  "narrow b rc =
     (let latDiv = (maxLat b - minLat b) / 4;
          lonDiv = (maxLon b - minLon b) / 4;
          row = fst rc; col = snd rc
      in \<lparr> minLat = minLat b + latDiv * of_int (3 - row),
           maxLat = minLat b + latDiv * of_int (4 - row),
           minLon = minLon b + lonDiv * of_int col,
           maxLon = minLon b + lonDiv * of_int (col + 1) \<rparr>)"

text \<open>
  Modelled from the spec: section 4.1, step 4, the table lookup \<open>SymbolGrid[row][col]\<close>
  of the absent encoder. An index outside the table has no symbol.
\<close>

definition symbol_at :: "symbol_grid \<Rightarrow> int \<times> int \<Rightarrow> char option" where
  "symbol_at g rc =
     (let row = fst rc; col = snd rc
      in if 0 \<le> row \<and> row < int (length g) \<and> 0 \<le> col \<and> col < int (length (g ! nat row))
         then Some (g ! nat row ! nat col) else None)"

text \<open>
  Modelled from the spec: section 4.2, the inverse of the SymbolGrid that the absent
  decoder consults: the first cell, in row order, that holds the symbol, if any.
\<close>

fun index_of :: "'a \<Rightarrow> 'a list \<Rightarrow> nat option" where
  "index_of x [] = None"
| "index_of x (y # ys) =
     (if x = y then Some 0 else map_option Suc (index_of x ys))"

fun find_in_rows :: "char \<Rightarrow> symbol_grid \<Rightarrow> nat \<Rightarrow> (int \<times> int) option" where
  "find_in_rows ch [] r = None"
| "find_in_rows ch (row # rows) r =
     (case index_of ch row of
        Some c \<Rightarrow> Some (int r, int c)
      | None \<Rightarrow> find_in_rows ch rows (Suc r))"

definition find_symbol :: "symbol_grid \<Rightarrow> char \<Rightarrow> (int \<times> int) option" where
  "find_symbol g ch = find_in_rows ch g 0"

subsection \<open>Encoder\<close>

text \<open>
  Modelled from the spec: section 4.1, the loop over the levels of the encoder in the
  absent \<^verbatim>\<open>digipin\<close> module. \<open>n\<close> counts the levels still to run, \<open>level\<close> is the
  number of the current one, starting at 1. Each level emits the symbol of the selected
  cell, then a separator if it is level 3 or level 6, and narrows the box.
\<close>

fun encode_loop ::
  "config \<Rightarrow> real \<Rightarrow> real \<Rightarrow> nat \<Rightarrow> nat \<Rightarrow> bounding_box \<Rightarrow> core_error + string" where
  "encode_loop cfg lat lon 0 level b = Inr []"
| "encode_loop cfg lat lon (Suc n) level b =
     (let rc = cell_index b lat lon in
      case symbol_at (grid cfg) rc of
        None \<Rightarrow> Inl TableIndexOutOfRange
      | Some ch \<Rightarrow>
          (case encode_loop cfg lat lon n (Suc level) (narrow b rc) of
             Inl e \<Rightarrow> Inl e
           | Inr rest \<Rightarrow>
               Inr (ch # (if level = 3 \<or> level = 6 then [separator cfg] else []) @ rest)))"

text \<open>
  Modelled from the spec: section 4.1, the precondition and the result of the encoder
  (\<^verbatim>\<open>getDigiPin\<close>). The failure names the axis and the bound that the coordinate
  violates; the latitude is examined first.
\<close>

definition encode :: "config \<Rightarrow> real \<Rightarrow> real \<Rightarrow> core_error + string" where
  "encode cfg lat lon =
     (if lat < minLat (root cfg) then Inl (CoordinateOutOfRange Latitude Below)
      else if maxLat (root cfg) < lat then Inl (CoordinateOutOfRange Latitude Above)
      else if lon < minLon (root cfg) then Inl (CoordinateOutOfRange Longitude Below)
      else if maxLon (root cfg) < lon then Inl (CoordinateOutOfRange Longitude Above)
      else encode_loop cfg lat lon (levels cfg) 1 (root cfg))"

text \<open>
  Modelled from the spec: section 4.1, steps 2, 3 and 5 iterated, the cells that the
  levels of the absent encoder select one after the other, and the box that a sequence
  of cells narrows to.
\<close>

fun encode_cells :: "bounding_box \<Rightarrow> real \<Rightarrow> real \<Rightarrow> nat \<Rightarrow> (int \<times> int) list" where
  "encode_cells b lat lon 0 = []"
| "encode_cells b lat lon (Suc n) =
     cell_index b lat lon # encode_cells (narrow b (cell_index b lat lon)) lat lon n"

fun narrow_all :: "bounding_box \<Rightarrow> (int \<times> int) list \<Rightarrow> bounding_box" where
  "narrow_all b [] = b"
| "narrow_all b (rc # rcs) = narrow_all (narrow b rc) rcs"

subsection \<open>Decoder\<close>

text \<open>
  Modelled from the spec: sections 3 and 4.2, the removal of the separator characters
  before the absent decoder validates a code.
\<close>

definition strip_separators :: "config \<Rightarrow> string \<Rightarrow> string" where
  "strip_separators cfg s = filter (\<lambda>c. c \<noteq> separator cfg) s"

text \<open>
  Modelled from the spec: section 4.2, the loop of the decoder in the absent
  \<^verbatim>\<open>digipin\<close> module: each symbol is looked up in the inverse table and the box is
  narrowed by the encoder's rule.
\<close>

fun decode_loop :: "config \<Rightarrow> bounding_box \<Rightarrow> string \<Rightarrow> core_error + bounding_box" where
  "decode_loop cfg b [] = Inr b"
| "decode_loop cfg b (ch # rest) =
     (case find_symbol (grid cfg) ch of
        None \<Rightarrow> Inl InvalidCodeSymbol
      | Some rc \<Rightarrow> decode_loop cfg (narrow b rc) rest)"

text \<open>
  Modelled from the spec: section 4.2, the precondition and the result of the decoder
  (\<^verbatim>\<open>getLatLngFromDigiPin\<close>). Separators are removed, the character count is
  checked, then the symbols are consumed in order; the result is the final box and its
  midpoint.
\<close>

definition decode :: "config \<Rightarrow> string \<Rightarrow> core_error + decoded" where
  "decode cfg s =
     (let pin = strip_separators cfg s in
      if length pin \<noteq> levels cfg then Inl InvalidCodeLength
      else case decode_loop cfg (root cfg) pin of
             Inl e \<Rightarrow> Inl e
           | Inr b \<Rightarrow>
               Inr \<lparr> cell = b,
                     midLat = (minLat b + maxLat b) / 2,
                     midLon = (minLon b + maxLon b) / 2 \<rparr>)"

text \<open>
  Modelled from the spec: section 4.2 names the two validations of the absent decoder
  (the character count and the membership of every character in the alphabet) without
  saying which one is made first. \<open>decode\<close> above checks the count first; this is the
  decoder with the other order, which consumes the symbols first and checks the count
  afterwards. The two agree on every string of the right length.
\<close>

definition decode_symbols_first :: "config \<Rightarrow> string \<Rightarrow> core_error + decoded" where
  "decode_symbols_first cfg s =
     (let pin = strip_separators cfg s in
      case decode_loop cfg (root cfg) pin of
        Inl e \<Rightarrow> Inl e
      | Inr b \<Rightarrow>
          if length pin \<noteq> levels cfg then Inl InvalidCodeLength
          else Inr \<lparr> cell = b,
                     midLat = (minLat b + maxLat b) / 2,
                     midLon = (minLon b + maxLon b) / 2 \<rparr>)"

text \<open>
  Modelled from the spec: an instance of the constants, whose values the specification
  leaves open, for evaluation: a 36 by 36 degree root box, a table of 16 symbols, ten
  levels and a hyphen as separator.
\<close>

definition example_config :: config where
  "example_config =
     \<lparr> root = \<lparr> minLat = 5/2, maxLat = 77/2, minLon = 127/2, maxLon = 199/2 \<rparr>,
       grid = [''FC98'', ''J327'', ''K456'', ''LMPT''],
       levels = 10,
       separator = CHR ''-'' \<rparr>"

text \<open>
  Modelled from the spec: notions of sections 3 and 4.1 used to state properties of the
  absent encoder: a cell inside the 4 by 4 table, a table of that shape, the symbol a
  cell holds, and a sequence of symbols written out with a separator after the symbol
  of level 3 and after the symbol of level 6.
\<close>

definition cell_ok :: "int \<times> int \<Rightarrow> bool" where
  "cell_ok rc \<longleftrightarrow> 0 \<le> fst rc \<and> fst rc \<le> 3 \<and> 0 \<le> snd rc \<and> snd rc \<le> 3"

definition grid_ok :: "symbol_grid \<Rightarrow> bool" where
  "grid_ok g \<longleftrightarrow> length g = 4 \<and> list_all (\<lambda>r. length r = 4) g"

definition grid_symbol :: "symbol_grid \<Rightarrow> int \<times> int \<Rightarrow> char" where
  "grid_symbol g rc = g ! nat (fst rc) ! nat (snd rc)"

fun with_separators :: "char \<Rightarrow> nat \<Rightarrow> string \<Rightarrow> string" where
  "with_separators sep level [] = []"
| "with_separators sep level (ch # rest) =
     ch # (if level = 3 \<or> level = 6 then [sep] else []) @ with_separators sep (Suc level) rest"

text \<open>
  Modelled from the spec: sections 4.1 and 8, the extent of a cell of the last level on
  each axis (the root extent divided by \<open>4 ^ L\<close>), the diagonal of such a cell, and
  the distance between two coordinates.
\<close>

definition cell_lat_extent :: "config \<Rightarrow> real" where
  "cell_lat_extent cfg = (maxLat (root cfg) - minLat (root cfg)) / 4 ^ levels cfg"

definition cell_lon_extent :: "config \<Rightarrow> real" where
  "cell_lon_extent cfg = (maxLon (root cfg) - minLon (root cfg)) / 4 ^ levels cfg"

definition cell_diagonal :: "config \<Rightarrow> real" where
  "cell_diagonal cfg = sqrt ((cell_lat_extent cfg)\<^sup>2 + (cell_lon_extent cfg)\<^sup>2)"

definition distance :: "real \<times> real \<Rightarrow> real \<times> real \<Rightarrow> real" where
  "distance p q = sqrt ((fst p - fst q)\<^sup>2 + (snd p - snd q)\<^sup>2)"

text \<open>
  Modelled from the spec: section 4.1, what it means for a coordinate to violate a bound
  of an axis of the root box.
\<close>

fun violated :: "bounding_box \<Rightarrow> axis \<Rightarrow> bound \<Rightarrow> real \<Rightarrow> real \<Rightarrow> bool" where
  "violated b Latitude Below lat lon \<longleftrightarrow> lat < minLat b"
| "violated b Latitude Above lat lon \<longleftrightarrow> maxLat b < lat"
| "violated b Longitude Below lat lon \<longleftrightarrow> lon < minLon b"
| "violated b Longitude Above lat lon \<longleftrightarrow> maxLon b < lon"

section \<open>The HTTP adapter\<close>

subsection \<open>JavaScript values\<close>

text \<open>
  A JavaScript number is a finite value, an infinity or NaN. Finite values are kept as
  exact reals: their rounding to 64-bit floating point is not modelled, and the two
  zeros are one value.
\<close>

datatype jsnum = Finite real | PosInf | NegInf | NaN

text \<open>
  The values a parsed JSON body or a parsed query string holds, and \<open>undefined\<close> for
  a property that is absent. Strings are lists of 8-bit characters.
\<close>

datatype jsval =
    JUndefined
  | JNull
  | JBool bool
  | JNum jsnum
  | JStr string
  | JArr "jsval list"
  | JObj "(string \<times> jsval) list"

fun typeof :: "jsval \<Rightarrow> string" where
  "typeof JUndefined = ''undefined''"
| "typeof JNull = ''object''"
| "typeof (JBool b) = ''boolean''"
| "typeof (JNum n) = ''number''"
| "typeof (JStr s) = ''string''"
| "typeof (JArr xs) = ''object''"
| "typeof (JObj kvs) = ''object''"

text \<open>The conversion to a boolean that \<^verbatim>\<open>!value\<close> applies.\<close>

fun truthy :: "jsval \<Rightarrow> bool" where
  "truthy JUndefined = False"
| "truthy JNull = False"
| "truthy (JBool b) = b"
| "truthy (JNum n) = (case n of Finite x \<Rightarrow> x \<noteq> 0 | NaN \<Rightarrow> False | _ \<Rightarrow> True)"
| "truthy (JStr s) = (s \<noteq> [])"
| "truthy (JArr xs) = True"
| "truthy (JObj kvs) = True"

definition isNaN :: "jsnum \<Rightarrow> bool" where
  "isNaN n \<longleftrightarrow> n = NaN"

definition isFinite :: "jsnum \<Rightarrow> bool" where
  "isFinite n \<longleftrightarrow> (case n of Finite x \<Rightarrow> True | _ \<Rightarrow> False)"

text \<open>Reading a property of an object; an absent property is \<open>undefined\<close>.\<close>

definition get_prop :: "(string \<times> jsval) list \<Rightarrow> string \<Rightarrow> jsval" where
  "get_prop obj k = (case map_of obj k of None \<Rightarrow> JUndefined | Some v \<Rightarrow> v)"

subsection \<open>The built-ins parseFloat, trim and includes\<close>

text \<open>
  The white space that \<^verbatim>\<open>trim\<close> and \<^verbatim>\<open>parseFloat\<close> skip, as far as 8-bit
  characters reach: tab, line feed, vertical tab, form feed, carriage return, space and
  the no-break space.
\<close>

definition is_js_space :: "char \<Rightarrow> bool" where
  "is_js_space c \<longleftrightarrow>
     c \<in> set [CHR 0x09, CHR 0x0A, CHR 0x0B, CHR 0x0C, CHR 0x0D, CHR 0x20, CHR 0xA0]"

definition trim :: "string \<Rightarrow> string" where
  "trim s = rev (dropWhile is_js_space (rev (dropWhile is_js_space s)))"

definition starts_with :: "string \<Rightarrow> string \<Rightarrow> bool" where
  "starts_with p s \<longleftrightarrow> take (length p) s = p"

text \<open>\<^verbatim>\<open>s.includes(t)\<close>: \<open>t\<close> occurs in \<open>s\<close> as a contiguous substring.\<close>

fun str_includes :: "string \<Rightarrow> string \<Rightarrow> bool" where
  "str_includes [] t = (t = [])"
| "str_includes (c # s) t = (starts_with t (c # s) \<or> str_includes s t)"

definition is_digit :: "char \<Rightarrow> bool" where
  "is_digit c \<longleftrightarrow> c \<in> set ''0123456789''"

definition digit_value :: "char \<Rightarrow> nat" where
  "digit_value c = of_char c - 48"

definition digits_value :: "string \<Rightarrow> nat" where
  "digits_value ds = foldl (\<lambda>a c. 10 * a + digit_value c) 0 ds"

definition pow10 :: "int \<Rightarrow> real" where
  "pow10 k = (if 0 \<le> k then 10 ^ nat k else 1 / 10 ^ nat (- k))"

text \<open>
  The exponent part of a decimal literal: \<open>e\<close> or \<open>E\<close>, an optional sign and at least
  one digit. Anything else is no exponent part, and the literal ends before it.
\<close>

definition exponent_part :: "string \<Rightarrow> int" where
  "exponent_part s =
     (case s of
        [] \<Rightarrow> 0
      | c # t \<Rightarrow>
          if c = CHR ''e'' \<or> c = CHR ''E'' then
            (case t of
               [] \<Rightarrow> 0
             | d # u \<Rightarrow>
                 if d = CHR ''-'' then - int (digits_value (takeWhile is_digit u))
                 else if d = CHR ''+'' then int (digits_value (takeWhile is_digit u))
                 else int (digits_value (takeWhile is_digit t)))
          else 0)"

text \<open>
  A value at or beyond \<open>2 ^ 1024 - 2 ^ 970\<close> in magnitude rounds to an infinity in 64-bit
  floating point; below it the value stays finite.
\<close>

definition round_overflow :: "real \<Rightarrow> jsnum" where
  "round_overflow v =
     (if 2 ^ 1024 - 2 ^ 970 \<le> v then PosInf
      else if v \<le> - (2 ^ 1024 - 2 ^ 970) then NegInf
      else Finite v)"

text \<open>
  The longest prefix that is an unsigned decimal literal of the language's
  string-to-number grammar: \<open>Infinity\<close>, or digits with an optional fraction and an
  optional exponent, with a digit before or after the point. No such prefix gives NaN.
\<close>

definition str_unsigned_decimal :: "string \<Rightarrow> jsnum" where
  "str_unsigned_decimal s =
     (if starts_with ''Infinity'' s then PosInf
      else
        let ip = takeWhile is_digit s;
            r1 = dropWhile is_digit s;
            fp = (case r1 of [] \<Rightarrow> []
                  | c # t \<Rightarrow> if c = CHR ''.'' then takeWhile is_digit t else []);
            r2 = (case r1 of [] \<Rightarrow> []
                  | c # t \<Rightarrow> if c = CHR ''.'' then dropWhile is_digit t else r1)
        in if ip = [] \<and> fp = [] then NaN
           else round_overflow
                  (of_nat (digits_value (ip @ fp)) * pow10 (exponent_part r2 - int (length fp))))"

fun negate :: "jsnum \<Rightarrow> jsnum" where
  "negate (Finite x) = Finite (- x)"
| "negate PosInf = NegInf"
| "negate NegInf = PosInf"
| "negate NaN = NaN"

text \<open>
  \<^verbatim>\<open>parseFloat\<close> on a string: leading white space is skipped, then an optional sign
  and the longest literal prefix are read; whatever follows the prefix is ignored.
\<close>

definition parseFloat :: "string \<Rightarrow> jsnum" where
  "parseFloat s =
     (case dropWhile is_js_space s of
        [] \<Rightarrow> NaN
      | c # u \<Rightarrow>
          if c = CHR ''-'' then negate (str_unsigned_decimal u)
          else if c = CHR ''+'' then str_unsigned_decimal u
          else str_unsigned_decimal (c # u))"

text \<open>
  \<^verbatim>\<open>parseFloat\<close> on any value converts it to a string first. A number prints to a
  literal that reads back as the same number. An array prints its elements joined by
  commas, so its first element decides; an empty array prints as the empty string. The
  words \<open>undefined\<close>, \<open>null\<close>, \<open>true\<close>, \<open>false\<close> and \<open>[object Object]\<close> start with
  no literal.
\<close>

fun parseFloat_of :: "jsval \<Rightarrow> jsnum" where
  "parseFloat_of (JStr s) = parseFloat s"
| "parseFloat_of (JNum n) = n"
| "parseFloat_of (JArr (x # xs)) = parseFloat_of x"
| "parseFloat_of v = NaN"

subsection \<open>Validation helpers of the routes\<close>

definition isValidNumber :: "jsval \<Rightarrow> bool" where
  "isValidNumber value =
     (let num = (case value of JStr s \<Rightarrow> JNum (parseFloat s) | _ \<Rightarrow> value)
      in case num of JNum n \<Rightarrow> \<not> isNaN n \<and> isFinite n | _ \<Rightarrow> False)"

definition isValidString :: "jsval \<Rightarrow> bool" where
  "isValidString value =
     (case value of JStr s \<Rightarrow> 0 < length (trim s) | _ \<Rightarrow> False)"

subsection \<open>Requests and responses\<close>

text \<open>
  A request as the handlers read it: the method, the path, the headers under their
  lower-case names, the body object that the JSON body parser produced and the parsed
  query. A response is what \<^verbatim>\<open>res.status(n).json(v)\<close> sends.
\<close>

record request =
  "method" :: string
  path :: string
  headers :: "(string \<times> string) list"
  body :: "(string \<times> jsval) list"
  query :: "(string \<times> jsval) list"

record response =
  status :: nat
  json :: jsval

definition error_code :: "response \<Rightarrow> jsval" where
  "error_code res = (case json res of JObj kvs \<Rightarrow> get_prop kvs ''code'' | _ \<Rightarrow> JUndefined)"

definition error_text :: "response \<Rightarrow> jsval" where
  "error_text res = (case json res of JObj kvs \<Rightarrow> get_prop kvs ''error'' | _ \<Rightarrow> JUndefined)"

subsection \<open>Route handlers\<close>

text \<open>
  The two core functions are parameters of the handlers: each returns \<open>Inr\<close> its result
  or \<open>Inl\<close> the error it throws, and \<open>message\<close> reads the thrown error's message. A
  handler returns the response together with the list of arguments with which it
  called the core, in order. In the decode handlers the test
  \<^verbatim>\<open>typeof digipin !== 'string'\<close> is the case distinction on \<open>JStr\<close>, made after
  the test for a missing value and before \<^verbatim>\<open>isValidString\<close>, as in the source.
\<close>

definition post_encode ::
  "(jsnum \<Rightarrow> jsnum \<Rightarrow> 'e + string) \<Rightarrow> ('e \<Rightarrow> string) \<Rightarrow> request
     \<Rightarrow> response \<times> (jsnum \<times> jsnum) list" where
  "post_encode getDigiPin message req =
     (let latitude = get_prop (body req) ''latitude'';
          longitude = get_prop (body req) ''longitude''
      in
      if latitude = JUndefined \<or> latitude = JNull then
        (\<lparr> status = 400,
            json = JObj [(''error'', JStr ''Missing required field: latitude''),
                         (''code'', JStr ''MISSING_LATITUDE'')] \<rparr>, [])
      else if longitude = JUndefined \<or> longitude = JNull then
        (\<lparr> status = 400,
            json = JObj [(''error'', JStr ''Missing required field: longitude''),
                         (''code'', JStr ''MISSING_LONGITUDE'')] \<rparr>, [])
      else if \<not> isValidNumber latitude then
        (\<lparr> status = 400,
            json = JObj [(''error'', JStr ''Invalid latitude: must be a valid number''),
                         (''code'', JStr ''INVALID_LATITUDE'')] \<rparr>, [])
      else if \<not> isValidNumber longitude then
        (\<lparr> status = 400,
            json = JObj [(''error'', JStr ''Invalid longitude: must be a valid number''),
                         (''code'', JStr ''INVALID_LONGITUDE'')] \<rparr>, [])
      else
        let latNum = parseFloat_of latitude;
            lonNum = parseFloat_of longitude
        in case getDigiPin latNum lonNum of
             Inr code \<Rightarrow>
               (\<lparr> status = 200, json = JObj [(''digipin'', JStr code)] \<rparr>,
                [(latNum, lonNum)])
           | Inl err \<Rightarrow>
               (\<lparr> status = 400,
                   json = JObj [(''error'', JStr (message err)),
                                (''code'', JStr ''ENCODING_FAILED'')] \<rparr>,
                [(latNum, lonNum)]))"

definition post_decode ::
  "(string \<Rightarrow> 'e + jsval) \<Rightarrow> ('e \<Rightarrow> string) \<Rightarrow> request \<Rightarrow> response \<times> string list" where
  "post_decode getLatLngFromDigiPin message req =
     (let digipin = get_prop (body req) ''digipin'' in
      if digipin = JUndefined \<or> digipin = JNull then
        (\<lparr> status = 400,
            json = JObj [(''error'', JStr ''Missing required field: digipin''),
                         (''code'', JStr ''MISSING_DIGIPIN'')] \<rparr>, [])
      else
        case digipin of
          JStr s \<Rightarrow>
            if \<not> isValidString digipin then
              (\<lparr> status = 400,
                  json = JObj [(''error'', JStr ''Invalid digipin: must be a non-empty string''),
                               (''code'', JStr ''INVALID_DIGIPIN'')] \<rparr>, [])
            else
              (case getLatLngFromDigiPin s of
                 Inr coords \<Rightarrow> (\<lparr> status = 200, json = coords \<rparr>, [s])
               | Inl err \<Rightarrow>
                   (\<lparr> status = 400,
                       json = JObj [(''error'', JStr (message err)),
                                    (''code'', JStr ''DECODING_FAILED'')] \<rparr>, [s]))
        | _ \<Rightarrow>
            (\<lparr> status = 400,
                json = JObj [(''error'',
                              JStr (''Invalid digipin type: expected string, received ''
                                    @ typeof digipin)),
                             (''code'', JStr ''INVALID_DIGIPIN_TYPE''),
                             (''receivedType'', JStr (typeof digipin))] \<rparr>, []))"

definition get_encode ::
  "(jsnum \<Rightarrow> jsnum \<Rightarrow> 'e + string) \<Rightarrow> ('e \<Rightarrow> string) \<Rightarrow> request
     \<Rightarrow> response \<times> (jsnum \<times> jsnum) list" where
  "get_encode getDigiPin message req =
     (let latitude = get_prop (query req) ''latitude'';
          longitude = get_prop (query req) ''longitude''
      in
      if \<not> truthy latitude \<or> \<not> truthy longitude then
        (\<lparr> status = 400,
            json = JObj [(''error'',
                          JStr ''Missing required query parameters: latitude and longitude''),
                         (''code'', JStr ''MISSING_PARAMETERS'')] \<rparr>, [])
      else if \<not> isValidNumber latitude then
        (\<lparr> status = 400,
            json = JObj [(''error'', JStr ''Invalid latitude: must be a valid number''),
                         (''code'', JStr ''INVALID_LATITUDE'')] \<rparr>, [])
      else if \<not> isValidNumber longitude then
        (\<lparr> status = 400,
            json = JObj [(''error'', JStr ''Invalid longitude: must be a valid number''),
                         (''code'', JStr ''INVALID_LONGITUDE'')] \<rparr>, [])
      else
        let latNum = parseFloat_of latitude;
            lonNum = parseFloat_of longitude
        in case getDigiPin latNum lonNum of
             Inr code \<Rightarrow>
               (\<lparr> status = 200, json = JObj [(''digipin'', JStr code)] \<rparr>,
                [(latNum, lonNum)])
           | Inl err \<Rightarrow>
               (\<lparr> status = 400,
                   json = JObj [(''error'', JStr (message err)),
                                (''code'', JStr ''ENCODING_FAILED'')] \<rparr>,
                [(latNum, lonNum)]))"

definition get_decode ::
  "(string \<Rightarrow> 'e + jsval) \<Rightarrow> ('e \<Rightarrow> string) \<Rightarrow> request \<Rightarrow> response \<times> string list" where
  "get_decode getLatLngFromDigiPin message req =
     (let digipin = get_prop (query req) ''digipin'' in
      if \<not> truthy digipin then
        (\<lparr> status = 400,
            json = JObj [(''error'', JStr ''Missing required query parameter: digipin''),
                         (''code'', JStr ''MISSING_DIGIPIN'')] \<rparr>, [])
      else
        case digipin of
          JStr s \<Rightarrow>
            if \<not> isValidString digipin then
              (\<lparr> status = 400,
                  json = JObj [(''error'', JStr ''Invalid digipin: must be a non-empty string''),
                               (''code'', JStr ''INVALID_DIGIPIN'')] \<rparr>, [])
            else
              (case getLatLngFromDigiPin s of
                 Inr coords \<Rightarrow> (\<lparr> status = 200, json = coords \<rparr>, [s])
               | Inl err \<Rightarrow>
                   (\<lparr> status = 400,
                       json = JObj [(''error'', JStr (message err)),
                                    (''code'', JStr ''DECODING_FAILED'')] \<rparr>, [s]))
        | _ \<Rightarrow>
            (\<lparr> status = 400,
                json = JObj [(''error'',
                              JStr (''Invalid digipin type: expected string, received ''
                                    @ typeof digipin)),
                             (''code'', JStr ''INVALID_DIGIPIN_TYPE''),
                             (''receivedType'', JStr (typeof digipin))] \<rparr>, []))"

subsection \<open>The content-type middleware of the application\<close>

text \<open>
  \<^verbatim>\<open>validateJsonContentType\<close> either ends the request with a response or calls
  \<^verbatim>\<open>next()\<close>, which is \<open>None\<close> here.
\<close>

definition validateJsonContentType :: "request \<Rightarrow> response option" where
  "validateJsonContentType req =
     (if method req = ''POST'' \<or> method req = ''PUT'' \<or> method req = ''PATCH'' then
        (let contentType = map_of (headers req) ''content-type'' in
         if (case contentType of None \<Rightarrow> True
             | Some ct \<Rightarrow> ct = [] \<or> \<not> str_includes ct ''application/json'')
         then Some \<lparr> status = 415,
                     json = JObj
                       [(''error'',
                         JStr ''Unsupported Media Type: Content-Type must be application/json''),
                        (''code'', JStr ''INVALID_CONTENT_TYPE''),
                        (''receivedContentType'',
                         JStr (case contentType of None \<Rightarrow> ''none''
                               | Some ct \<Rightarrow> if ct = [] then ''none'' else ct)),
                        (''expectedContentType'', JStr ''application/json'')] \<rparr>
         else None)
      else None)"

text \<open>
  The application registers \<^verbatim>\<open>validateJsonContentType\<close> first. Everything
  registered after it (CORS, the JSON body parser, the logger, the documentation route
  and the routes above) is the parameter \<open>rest\<close>: it runs only when the middleware
  calls \<^verbatim>\<open>next()\<close>. \<open>Inl\<close> is a request that ended in the middleware.
\<close>

definition app :: "(request \<Rightarrow> 'r) \<Rightarrow> request \<Rightarrow> response + 'r" where
  "app rest req =
     (case validateJsonContentType req of
        Some res \<Rightarrow> Inl res
      | None \<Rightarrow> Inr (rest req))"

subsection \<open>Notions used to state properties of the adapter\<close>

definition is_missing :: "jsval \<Rightarrow> bool" where
  "is_missing v \<longleftrightarrow> v = JUndefined \<or> v = JNull"

text \<open>
  A parsed query string holds strings, arrays and nested objects; a parameter that is
  absent is \<open>undefined\<close>.
\<close>

fun is_query_value :: "jsval \<Rightarrow> bool" where
  "is_query_value JUndefined = True"
| "is_query_value (JStr s) = True"
| "is_query_value (JArr xs) = True"
| "is_query_value (JObj kvs) = True"
| "is_query_value v = False"

definition is_blank :: "string \<Rightarrow> bool" where
  "is_blank s \<longleftrightarrow> (\<forall>c \<in> set s. is_js_space c)"

text \<open>
  Modelled from the spec: section 6, the absent core as the adapter calls it, at the
  example constants. The encoder is defined on finite numbers, and the routes pass
  nothing else; for completeness a number that is not finite is reported as out of
  range. The decoder returns the midpoint as an object with the fields
  \<open>latitude\<close> and \<open>longitude\<close>. The message of a failure is the name of its kind.
\<close>

definition example_getDigiPin :: "jsnum \<Rightarrow> jsnum \<Rightarrow> core_error + string" where
  "example_getDigiPin a b =
     (case a of
        Finite x \<Rightarrow>
          (case b of
             Finite y \<Rightarrow> encode example_config x y
           | _ \<Rightarrow> Inl (CoordinateOutOfRange Longitude Above))
      | _ \<Rightarrow> Inl (CoordinateOutOfRange Latitude Above))"

definition example_getLatLngFromDigiPin :: "string \<Rightarrow> core_error + jsval" where
  "example_getLatLngFromDigiPin s =
     (case decode example_config s of
        Inl e \<Rightarrow> Inl e
      | Inr d \<Rightarrow>
          Inr (JObj [(''latitude'', JNum (Finite (midLat d))),
                     (''longitude'', JNum (Finite (midLon d)))]))"

fun kind_name :: "core_error \<Rightarrow> string" where
  "kind_name (CoordinateOutOfRange a b) = ''CoordinateOutOfRange''"
| "kind_name InvalidCodeLength = ''InvalidCodeLength''"
| "kind_name InvalidCodeSymbol = ''InvalidCodeSymbol''"
| "kind_name TableIndexOutOfRange = ''TableIndexOutOfRange''"

text \<open>
  Requests for evaluation: a POST request with a JSON body and a GET request with a
  query string.
\<close>

definition post_request :: "string \<Rightarrow> (string \<times> jsval) list \<Rightarrow> request" where
  "post_request p b =
     \<lparr> method = ''POST'', path = p,
       headers = [(''content-type'', ''application/json'')], body = b, query = [] \<rparr>"

definition get_request :: "string \<Rightarrow> (string \<times> jsval) list \<Rightarrow> request" where
  "get_request p q =
     \<lparr> method = ''GET'', path = p, headers = [], body = [], query = q \<rparr>"

section \<open>Properties of the core\<close>

subsection \<open>The symbol table\<close>

lemma example_config_ok: "config_ok example_config"
  by (simp add: config_ok_def example_config_def box_ok_def)

lemma config_ok_grid: "config_ok cfg \<Longrightarrow> grid_ok (grid cfg)"
  by (simp add: config_ok_def grid_ok_def)

lemma clamp03_range: "0 \<le> clamp03 i \<and> clamp03 i \<le> 3"
  by (simp add: clamp03_def)

lemma cell_index_ok: "cell_ok (cell_index b lat lon)"
  by (simp add: cell_ok_def cell_index_def clamp03_range)

lemma grid_row_length:
  assumes "grid_ok g" "0 \<le> r" "r \<le> 3"
  shows "length (g ! nat r) = 4"
proof -
  have "nat r < length g" using assms by (simp add: grid_ok_def)
  then have "g ! nat r \<in> set g" by simp
  then show ?thesis using assms(1) by (simp add: grid_ok_def list_all_iff)
qed

lemma symbol_at_ok:
  assumes "grid_ok g" "cell_ok rc"
  shows "symbol_at g rc = Some (grid_symbol g rc)"
proof -
  have "length (g ! nat (fst rc)) = 4"
    using assms by (simp add: grid_row_length cell_ok_def)
  then show ?thesis
    using assms by (simp add: symbol_at_def grid_symbol_def cell_ok_def grid_ok_def Let_def)
qed

lemma grid_symbol_in_concat:
  assumes "grid_ok g" "cell_ok rc"
  shows "grid_symbol g rc \<in> set (concat g)"
proof -
  have r: "nat (fst rc) < length g" using assms by (auto simp: grid_ok_def cell_ok_def)
  have "length (g ! nat (fst rc)) = 4"
    using assms by (simp add: grid_row_length cell_ok_def)
  then have "nat (snd rc) < length (g ! nat (fst rc))"
    using assms(2) by (auto simp: cell_ok_def)
  then have "grid_symbol g rc \<in> set (g ! nat (fst rc))"
    by (simp add: grid_symbol_def)
  moreover have "g ! nat (fst rc) \<in> set g" using r by simp
  ultimately show ?thesis by auto
qed

lemma index_of_None: "index_of x ys = None \<longleftrightarrow> x \<notin> set ys"
  by (induction ys) auto

lemma index_of_nth: "distinct ys \<Longrightarrow> c < length ys \<Longrightarrow> index_of (ys ! c) ys = Some c"
proof (induction ys arbitrary: c)
  case Nil
  then show ?case by simp
next
  case (Cons y ys)
  show ?case
  proof (cases c)
    case 0
    then show ?thesis by simp
  next
    case (Suc c')
    with Cons.prems have "c' < length ys" and "distinct ys" and "y \<notin> set ys" by auto
    then have "ys ! c' \<noteq> y" and "index_of (ys ! c') ys = Some c'"
      using Cons.IH by auto
    with Suc show ?thesis by simp
  qed
qed

lemma find_in_rows_None: "find_in_rows ch rows k = None \<longleftrightarrow> ch \<notin> set (concat rows)"
proof (induction rows arbitrary: k)
  case Nil
  show ?case by simp
next
  case (Cons row rows)
  show ?case
  proof (cases "index_of ch row")
    case None
    then have "ch \<notin> set row" by (simp add: index_of_None)
    with None Cons.IH show ?thesis by simp
  next
    case (Some c)
    then have "ch \<in> set row" using index_of_None [of ch row] by auto
    with Some show ?thesis by simp
  qed
qed

lemma find_in_rows_nth:
  "distinct (concat rows) \<Longrightarrow> r < length rows \<Longrightarrow> c < length (rows ! r) \<Longrightarrow>
   find_in_rows (rows ! r ! c) rows k = Some (int (k + r), int c)"
proof (induction rows arbitrary: r k)
  case Nil
  then show ?case by simp
next
  case (Cons row rows)
  show ?case
  proof (cases r)
    case 0
    with Cons.prems have "index_of (row ! c) row = Some c"
      by (simp add: index_of_nth)
    with 0 show ?thesis by simp
  next
    case (Suc r')
    with Cons.prems have r': "r' < length rows" and c: "c < length (rows ! r')" by auto
    then have "rows ! r' ! c \<in> set (concat rows)" by (auto intro!: bexI [of _ "rows ! r'"])
    moreover from Cons.prems have "set row \<inter> set (concat rows) = {}" by simp
    ultimately have "rows ! r' ! c \<notin> set row" by blast
    then have "index_of (rows ! r' ! c) row = None" by (simp add: index_of_None)
    moreover from Cons.prems have "distinct (concat rows)" by simp
    then have "find_in_rows (rows ! r' ! c) rows (Suc k) = Some (int (Suc k + r'), int c)"
      using r' c by (rule Cons.IH)
    ultimately show ?thesis using Suc by simp
  qed
qed

lemma find_symbol_grid_symbol:
  assumes "grid_ok g" "distinct (concat g)" "cell_ok rc"
  shows "find_symbol g (grid_symbol g rc) = Some rc"
proof -
  have r: "nat (fst rc) < length g" using assms by (auto simp: grid_ok_def cell_ok_def)
  have "length (g ! nat (fst rc)) = 4"
    using assms by (simp add: grid_row_length cell_ok_def)
  then have c: "nat (snd rc) < length (g ! nat (fst rc))"
    using assms(3) by (auto simp: cell_ok_def)
  have "find_in_rows (g ! nat (fst rc) ! nat (snd rc)) g 0
          = Some (int (0 + nat (fst rc)), int (nat (snd rc)))"
    using assms(2) r c by (rule find_in_rows_nth)
  then show ?thesis
    using assms(3) by (simp add: find_symbol_def grid_symbol_def cell_ok_def)
qed

lemma find_symbol_None: "find_symbol g ch = None \<longleftrightarrow> ch \<notin> set (concat g)"
  by (simp add: find_symbol_def find_in_rows_None)

subsection \<open>The encoder's output\<close>

lemma encode_loop_symbols:
  assumes "grid_ok (grid cfg)"
  shows "encode_loop cfg lat lon n level b =
           Inr (with_separators (separator cfg) level
                  (map (grid_symbol (grid cfg)) (encode_cells b lat lon n)))"
proof (induction n arbitrary: level b)
  case 0
  show ?case by simp
next
  case (Suc n)
  have "symbol_at (grid cfg) (cell_index b lat lon)
          = Some (grid_symbol (grid cfg) (cell_index b lat lon))"
    using assms cell_index_ok by (rule symbol_at_ok)
  then show ?case by (simp add: Suc.IH Let_def)
qed

lemma length_encode_cells: "length (encode_cells b lat lon n) = n"
  by (induction n arbitrary: b) simp_all

lemma encode_cells_ok: "rc \<in> set (encode_cells b lat lon n) \<Longrightarrow> cell_ok rc"
  by (induction n arbitrary: b) (auto simp: cell_index_ok)

lemma with_separators_late: "6 < level \<Longrightarrow> with_separators sep level s = s"
  by (induction s arbitrary: level) simp_all

lemma strip_with_separators:
  "sep \<notin> set s \<Longrightarrow> filter (\<lambda>c. c \<noteq> sep) (with_separators sep level s) = s"
  by (induction s arbitrary: level) auto

lemma with_separators_shape:
  assumes "6 \<le> length s"
  shows "with_separators sep 1 s = take 3 s @ [sep] @ take 3 (drop 3 s) @ [sep] @ drop 6 s"
proof -
  obtain a b c d e f r where s: "s = a # b # c # d # e # f # r"
    using assms by (auto simp: Suc_le_length_iff eval_nat_numeral)
  show ?thesis unfolding s
    by (simp add: with_separators_late eval_nat_numeral)
qed

lemma encode_in_range:
  assumes "config_ok cfg" "in_box (root cfg) lat lon"
  shows "encode cfg lat lon =
           Inr (with_separators (separator cfg) 1
                  (map (grid_symbol (grid cfg))
                     (encode_cells (root cfg) lat lon (levels cfg))))"
proof -
  have "encode cfg lat lon = encode_loop cfg lat lon (levels cfg) 1 (root cfg)"
    using assms(2) by (simp add: encode_def in_box_def)
  then show ?thesis
    using assms(1) by (simp add: encode_loop_symbols config_ok_grid)
qed

lemma encode_symbols_in_alphabet:
  assumes "config_ok cfg"
  shows "set (map (grid_symbol (grid cfg)) (encode_cells b lat lon n)) \<subseteq> alphabet cfg"
proof
  fix ch
  assume "ch \<in> set (map (grid_symbol (grid cfg)) (encode_cells b lat lon n))"
  then obtain rc where rc: "rc \<in> set (encode_cells b lat lon n)"
    and ch: "ch = grid_symbol (grid cfg) rc" by auto
  from rc have "cell_ok rc" by (rule encode_cells_ok)
  with assms have "grid_symbol (grid cfg) rc \<in> set (concat (grid cfg))"
    by (intro grid_symbol_in_concat config_ok_grid)
  with ch show "ch \<in> alphabet cfg" by (simp add: alphabet_def)
qed

subsection \<open>Narrowing\<close>

lemma floor_quarter:
  fixes lo hi x :: real
  assumes "lo < hi" "lo \<le> x" "x \<le> hi"
  defines "f \<equiv> \<lfloor>(x - lo) / ((hi - lo) / 4)\<rfloor>"
  shows "0 \<le> f" and "f \<le> 4"
    and "lo + (hi - lo) / 4 * of_int (min f 3) \<le> x"
    and "x \<le> lo + (hi - lo) / 4 * of_int (min f 3 + 1)"
proof -
  define d where "d = (hi - lo) / 4"
  define t where "t = (x - lo) / d"
  have d: "0 < d" using assms(1) by (simp add: d_def)
  have x: "x = lo + d * t" using d by (simp add: t_def)
  have t0: "0 \<le> t" using d assms(2) by (simp add: t_def)
  have "x - lo \<le> 4 * d" using assms(3) by (simp add: d_def)
  then have t4: "t \<le> 4" using d by (simp add: t_def pos_divide_le_eq mult.commute)
  have f: "f = \<lfloor>t\<rfloor>" by (simp add: f_def t_def d_def)
  show f0: "0 \<le> f" using t0 by (simp add: f)
  show f4: "f \<le> 4" using t4 by (simp add: f floor_le_iff)
  have "of_int (min f 3) \<le> (of_int f :: real)" by simp
  also have "\<dots> \<le> t" by (simp add: f)
  finally have "d * of_int (min f 3) \<le> d * t" using d by simp
  then show "lo + (hi - lo) / 4 * of_int (min f 3) \<le> x"
    using x by (simp add: d_def)
  have "t \<le> of_int (min f 3 + 1)"
  proof (cases "f \<le> 3")
    case True
    then have "min f 3 = f" by simp
    moreover have "t < of_int f + 1" by (simp add: f)
    ultimately show ?thesis by simp
  next
    case False
    then have "min f 3 = 3" by simp
    with t4 show ?thesis by simp
  qed
  then have "d * t \<le> d * of_int (min f 3 + 1)" using d by simp
  then show "x \<le> lo + (hi - lo) / 4 * of_int (min f 3 + 1)"
    using x by (simp add: d_def)
qed

lemma narrow_box_ok: "box_ok b \<Longrightarrow> box_ok (narrow b rc)"
  by (simp add: box_ok_def narrow_def Let_def)

lemma narrow_extent:
  "maxLat (narrow b rc) - minLat (narrow b rc) = (maxLat b - minLat b) / 4"
  "maxLon (narrow b rc) - minLon (narrow b rc) = (maxLon b - minLon b) / 4"
  by (simp_all add: narrow_def Let_def field_simps)

lemma narrow_contains:
  assumes "box_ok b" "in_box b lat lon"
  shows "in_box (narrow b (cell_index b lat lon)) lat lon"
proof -
  define f where "f = \<lfloor>(lat - minLat b) / ((maxLat b - minLat b) / 4)\<rfloor>"
  define g where "g = \<lfloor>(lon - minLon b) / ((maxLon b - minLon b) / 4)\<rfloor>"
  have lat: "minLat b < maxLat b" "minLat b \<le> lat" "lat \<le> maxLat b"
    and lon: "minLon b < maxLon b" "minLon b \<le> lon" "lon \<le> maxLon b"
    using assms by (simp_all add: box_ok_def in_box_def)
  note F = floor_quarter [OF lat, folded f_def]
  note G = floor_quarter [OF lon, folded g_def]
  have rr: "raw_row b lat = 3 - f" by (simp only: raw_row_def f_def)
  have rc: "raw_col b lon = g" by (simp only: raw_col_def g_def)
  have row: "3 - clamp03 (raw_row b lat) = min f 3" "4 - clamp03 (raw_row b lat) = min f 3 + 1"
    using F(1) by (simp_all add: clamp03_def rr)
  have col: "clamp03 (raw_col b lon) = min g 3"
    using G(1) by (simp add: clamp03_def rc)
  show ?thesis
    using F(3,4) G(3,4) unfolding in_box_def narrow_def cell_index_def Let_def
    by (simp add: row col)
qed

lemma narrow_all_box_ok: "box_ok b \<Longrightarrow> box_ok (narrow_all b rcs)"
  by (induction rcs arbitrary: b) (simp_all add: narrow_box_ok)

lemma narrow_all_extent:
  "maxLat (narrow_all b rcs) - minLat (narrow_all b rcs)
     = (maxLat b - minLat b) / 4 ^ length rcs"
  "maxLon (narrow_all b rcs) - minLon (narrow_all b rcs)
     = (maxLon b - minLon b) / 4 ^ length rcs"
  by (induction rcs arbitrary: b) (simp_all add: narrow_extent)

lemma encode_cells_contains:
  "box_ok b \<Longrightarrow> in_box b lat lon \<Longrightarrow>
   in_box (narrow_all b (encode_cells b lat lon n)) lat lon"
  by (induction n arbitrary: b) (simp_all add: narrow_box_ok narrow_contains)

subsection \<open>The decoder on the encoder's symbols\<close>

lemma decode_loop_symbols:
  assumes "grid_ok (grid cfg)" "distinct (concat (grid cfg))"
  shows "\<forall>rc \<in> set rcs. cell_ok rc \<Longrightarrow>
         decode_loop cfg b (map (grid_symbol (grid cfg)) rcs) = Inr (narrow_all b rcs)"
  using assms by (induction rcs arbitrary: b) (simp_all add: find_symbol_grid_symbol)

lemma decode_encode:
  assumes "config_ok cfg" "in_box (root cfg) lat lon"
  defines "fb \<equiv> narrow_all (root cfg) (encode_cells (root cfg) lat lon (levels cfg))"
  shows "\<exists>code. encode cfg lat lon = Inr code \<and>
           decode cfg code = Inr \<lparr> cell = fb,
                                   midLat = (minLat fb + maxLat fb) / 2,
                                   midLon = (minLon fb + maxLon fb) / 2 \<rparr>"
proof -
  define rcs where "rcs = encode_cells (root cfg) lat lon (levels cfg)"
  define syms where "syms = map (grid_symbol (grid cfg)) rcs"
  define code where "code = with_separators (separator cfg) 1 syms"
  have enc: "encode cfg lat lon = Inr code"
    using assms(1,2) by (simp add: encode_in_range code_def syms_def rcs_def)
  have "set syms \<subseteq> set (concat (grid cfg))"
    using encode_symbols_in_alphabet [OF assms(1)] by (simp add: syms_def rcs_def alphabet_def)
  then have "separator cfg \<notin> set syms"
    using assms(1) by (auto simp: config_ok_def)
  then have strip: "strip_separators cfg code = syms"
    by (simp add: strip_separators_def code_def strip_with_separators)
  have len: "length syms = levels cfg"
    by (simp add: syms_def rcs_def length_encode_cells)
  have "\<forall>rc \<in> set rcs. cell_ok rc"
    by (auto simp: rcs_def dest: encode_cells_ok)
  then have "decode_loop cfg (root cfg) syms = Inr fb"
    unfolding syms_def fb_def rcs_def [symmetric]
    using assms(1) by (intro decode_loop_symbols) (simp_all add: config_ok_grid config_ok_def)
  then have "decode cfg code = Inr \<lparr> cell = fb,
                                   midLat = (minLat fb + maxLat fb) / 2,
                                   midLon = (minLon fb + maxLon fb) / 2 \<rparr>"
    by (simp add: decode_def strip len Let_def)
  with enc show ?thesis by blast
qed

subsection \<open>The upper corner of a box\<close>

lemma corner_cell:
  assumes "box_ok b"
  shows "cell_index b (maxLat b) (maxLon b) = (0, 3)"
proof -
  have "(maxLat b - minLat b) / ((maxLat b - minLat b) / 4) = 4"
       "(maxLon b - minLon b) / ((maxLon b - minLon b) / 4) = 4"
    using assms by (simp_all add: box_ok_def field_simps)
  then show ?thesis
    by (simp only: cell_index_def raw_row_def raw_col_def clamp03_def) simp
qed

lemma narrow_corner:
  "maxLat (narrow b (0, 3)) = maxLat b" "maxLon (narrow b (0, 3)) = maxLon b"
  by (simp_all add: narrow_def Let_def field_simps)

lemma encode_cells_corner:
  "box_ok b \<Longrightarrow> lat = maxLat b \<Longrightarrow> lon = maxLon b \<Longrightarrow>
   encode_cells b lat lon n = replicate n (0, 3)"
proof (induction n arbitrary: b)
  case 0
  show ?case by simp
next
  case (Suc n)
  have c: "cell_index b lat lon = (0, 3)"
    using Suc.prems by (simp add: corner_cell)
  have "encode_cells (narrow b (0, 3)) lat lon n = replicate n (0, 3)"
    using Suc.prems by (intro Suc.IH) (simp_all add: narrow_box_ok narrow_corner)
  with c show ?case by simp
qed

lemma example_encode_corner:
  "encode example_config (77 / 2) (199 / 2) = Inr ''888-888-8888''"
proof -
  have box: "in_box (root example_config) (77 / 2) (199 / 2)"
    by (simp add: in_box_def example_config_def)
  have "encode_cells (root example_config) (77 / 2) (199 / 2) (levels example_config)
          = replicate (levels example_config) (0, 3)"
    using example_config_ok
    by (intro encode_cells_corner) (simp_all add: config_ok_def example_config_def)
  then have "encode example_config (77 / 2) (199 / 2)
          = Inr (with_separators (separator example_config) 1
                   (map (grid_symbol (grid example_config))
                      (replicate (levels example_config) (0, 3))))"
    using encode_in_range [OF example_config_ok box] by simp
  also have "\<dots> = Inr ''888-888-8888''"
    by (simp add: example_config_def grid_symbol_def eval_nat_numeral)
  finally show ?thesis .
qed

subsection \<open>Failures of the two loops\<close>

lemma encode_loop_failure:
  "encode_loop cfg lat lon n level b = Inl e \<Longrightarrow> e = TableIndexOutOfRange"
  by (induction n arbitrary: level b e) (auto simp: Let_def split: option.splits sum.splits)

lemma decode_loop_valid:
  "set pin \<subseteq> alphabet cfg \<Longrightarrow> \<exists>fb. decode_loop cfg b pin = Inr fb"
proof (induction pin arbitrary: b)
  case Nil
  show ?case by simp
next
  case (Cons ch pin)
  then have "ch \<in> set (concat (grid cfg))" by (simp add: alphabet_def)
  then obtain rc where "find_symbol (grid cfg) ch = Some rc"
    using find_symbol_None [of "grid cfg" ch] by (cases "find_symbol (grid cfg) ch") auto
  moreover from Cons.prems have "set pin \<subseteq> alphabet cfg" by simp
  ultimately show ?case using Cons.IH by simp
qed

lemma decode_loop_invalid:
  "\<not> set pin \<subseteq> alphabet cfg \<Longrightarrow> decode_loop cfg b pin = Inl InvalidCodeSymbol"
proof (induction pin arbitrary: b)
  case Nil
  then show ?case by simp
next
  case (Cons ch pin)
  show ?case
  proof (cases "find_symbol (grid cfg) ch")
    case None
    then show ?thesis by simp
  next
    case (Some rc)
    then have "ch \<in> alphabet cfg"
      using find_symbol_None [of "grid cfg" ch] by (auto simp: alphabet_def)
    with Cons.prems have "\<not> set pin \<subseteq> alphabet cfg" by simp
    with Some Cons.IH show ?thesis by simp
  qed
qed

subsection \<open>The claims about the core\<close>

text \<open>
  C1, round-trip bound. For constants that satisfy their invariants and every coordinate
  inside the root box, the encoder returns a code, the decoder accepts that code, and
  the decoded midpoint is within half the extent of a last-level cell of the original
  coordinate on each axis, hence within half the diagonal of such a cell.
\<close>

theorem round_trip_bound:
  assumes "config_ok cfg" "in_box (root cfg) lat lon"
  shows "\<exists>code d. encode cfg lat lon = Inr code \<and> decode cfg code = Inr d \<and>
           \<bar>midLat d - lat\<bar> \<le> cell_lat_extent cfg / 2 \<and>
           \<bar>midLon d - lon\<bar> \<le> cell_lon_extent cfg / 2 \<and>
           distance (midLat d, midLon d) (lat, lon) \<le> cell_diagonal cfg / 2"
proof -
  define rcs where "rcs = encode_cells (root cfg) lat lon (levels cfg)"
  define fb where "fb = narrow_all (root cfg) rcs"
  define d where "d = \<lparr> cell = fb, midLat = (minLat fb + maxLat fb) / 2,
                        midLon = (minLon fb + maxLon fb) / 2 \<rparr>"
  obtain code where enc: "encode cfg lat lon = Inr code" and dec: "decode cfg code = Inr d"
    using decode_encode [OF assms] unfolding d_def fb_def rcs_def by blast
  have root: "box_ok (root cfg)" using assms(1) by (simp add: config_ok_def)
  have "in_box fb lat lon"
    unfolding fb_def rcs_def using root assms(2) by (rule encode_cells_contains)
  then have inside: "minLat fb \<le> lat" "lat \<le> maxLat fb" "minLon fb \<le> lon" "lon \<le> maxLon fb"
    by (simp_all add: in_box_def)
  have len: "length rcs = levels cfg" by (simp add: rcs_def length_encode_cells)
  have ext: "maxLat fb - minLat fb = cell_lat_extent cfg"
            "maxLon fb - minLon fb = cell_lon_extent cfg"
    by (simp_all add: fb_def narrow_all_extent len cell_lat_extent_def cell_lon_extent_def)
  have dlat: "\<bar>midLat d - lat\<bar> \<le> cell_lat_extent cfg / 2"
    using inside(1,2) ext(1) by (simp add: d_def abs_le_iff field_simps)
  have dlon: "\<bar>midLon d - lon\<bar> \<le> cell_lon_extent cfg / 2"
    using inside(3,4) ext(2) by (simp add: d_def abs_le_iff field_simps)
  have "\<bar>midLat d - lat\<bar> \<le> \<bar>cell_lat_extent cfg / 2\<bar>"
       "\<bar>midLon d - lon\<bar> \<le> \<bar>cell_lon_extent cfg / 2\<bar>"
    using dlat dlon by linarith+
  then have "(midLat d - lat)\<^sup>2 \<le> (cell_lat_extent cfg / 2)\<^sup>2"
            "(midLon d - lon)\<^sup>2 \<le> (cell_lon_extent cfg / 2)\<^sup>2"
    by (simp_all only: abs_le_square_iff)
  then have "(midLat d - lat)\<^sup>2 + (midLon d - lon)\<^sup>2
               \<le> ((cell_lat_extent cfg)\<^sup>2 + (cell_lon_extent cfg)\<^sup>2) / 4"
    by (simp add: power_divide add_divide_distrib)
  then have "sqrt ((midLat d - lat)\<^sup>2 + (midLon d - lon)\<^sup>2)
               \<le> sqrt (((cell_lat_extent cfg)\<^sup>2 + (cell_lon_extent cfg)\<^sup>2) / 4)"
    by (rule real_sqrt_le_mono)
  also have "\<dots> = cell_diagonal cfg / 2"
    by (simp add: cell_diagonal_def real_sqrt_divide)
  finally have "distance (midLat d, midLon d) (lat, lon) \<le> cell_diagonal cfg / 2"
    by (simp add: distance_def)
  with enc dec dlat dlon show ?thesis by blast
qed

theorem round_trip_bound_witness:
  "config_ok example_config \<and>
   in_box (root example_config) (286139 / 10000) (77209 / 1000) \<and>
   (\<exists>code d. encode example_config (286139 / 10000) (77209 / 1000) = Inr code \<and>
      decode example_config code = Inr d \<and>
      \<bar>midLat d - 286139 / 10000\<bar> \<le> cell_lat_extent example_config / 2 \<and>
      \<bar>midLon d - 77209 / 1000\<bar> \<le> cell_lon_extent example_config / 2 \<and>
      distance (midLat d, midLon d) (286139 / 10000, 77209 / 1000)
        \<le> cell_diagonal example_config / 2)"
proof -
  have h: "in_box (root example_config) (286139 / 10000) (77209 / 1000)"
    by (simp add: in_box_def example_config_def)
  show ?thesis
    using example_config_ok h round_trip_bound [OF example_config_ok h] by blast
qed

text \<open>
  C2, fixed shape. For every coordinate inside the root box the encoder returns a code
  of \<open>L + 2\<close> characters; stripped of separators it has exactly \<open>L\<close> characters, all
  of the 16-symbol alphabet, and the code is those symbols with one separator right
  after the third and one right after the sixth, and no other.
\<close>

theorem fixed_shape:
  assumes "config_ok cfg" "in_box (root cfg) lat lon"
  shows "\<exists>code. encode cfg lat lon = Inr code \<and>
           length (strip_separators cfg code) = levels cfg \<and>
           set (strip_separators cfg code) \<subseteq> alphabet cfg \<and>
           separator cfg \<notin> alphabet cfg \<and>
           length code = levels cfg + 2 \<and>
           code = take 3 (strip_separators cfg code) @ [separator cfg]
                  @ take 3 (drop 3 (strip_separators cfg code)) @ [separator cfg]
                  @ drop 6 (strip_separators cfg code)"
proof -
  define syms where
    "syms = map (grid_symbol (grid cfg)) (encode_cells (root cfg) lat lon (levels cfg))"
  define code where "code = with_separators (separator cfg) 1 syms"
  have enc: "encode cfg lat lon = Inr code"
    using assms by (simp add: encode_in_range code_def syms_def)
  have alpha: "set syms \<subseteq> alphabet cfg"
    unfolding syms_def using assms(1) by (rule encode_symbols_in_alphabet)
  have sep: "separator cfg \<notin> alphabet cfg"
    using assms(1) by (simp add: config_ok_def alphabet_def)
  with alpha have "separator cfg \<notin> set syms" by blast
  then have strip: "strip_separators cfg code = syms"
    by (simp add: strip_separators_def code_def strip_with_separators)
  have len: "length syms = levels cfg"
    by (simp add: syms_def length_encode_cells)
  then have six: "6 \<le> length syms" using assms(1) by (simp add: config_ok_def)
  then have shape: "code = take 3 syms @ [separator cfg] @ take 3 (drop 3 syms)
                           @ [separator cfg] @ drop 6 syms"
    unfolding code_def by (rule with_separators_shape)
  have "length code = length syms + 2"
    using six by (subst shape) simp
  with enc alpha sep strip len shape show ?thesis by simp
qed

theorem fixed_shape_witness:
  "config_ok example_config \<and>
   in_box (root example_config) (77 / 2) (127 / 2) \<and>
   (\<exists>code. encode example_config (77 / 2) (127 / 2) = Inr code \<and>
      length (strip_separators example_config code) = levels example_config \<and>
      set (strip_separators example_config code) \<subseteq> alphabet example_config \<and>
      separator example_config \<notin> alphabet example_config \<and>
      length code = levels example_config + 2 \<and>
      code = take 3 (strip_separators example_config code) @ [separator example_config]
             @ take 3 (drop 3 (strip_separators example_config code))
             @ [separator example_config]
             @ drop 6 (strip_separators example_config code))"
proof -
  have h: "in_box (root example_config) (77 / 2) (127 / 2)"
    by (simp add: in_box_def example_config_def)
  show ?thesis
    using example_config_ok h fixed_shape [OF example_config_ok h] by blast
qed

text \<open>
  C3, range rejection. The encoder fails with \<open>CoordinateOutOfRange\<close> exactly when the
  latitude or the longitude is outside the root box, and the axis and bound that the
  failure carries are ones that the coordinate violates.
\<close>

theorem range_rejection:
  "((\<exists>ax bd. encode cfg lat lon = Inl (CoordinateOutOfRange ax bd))
      \<longleftrightarrow> \<not> in_box (root cfg) lat lon) \<and>
   (encode cfg lat lon = Inl (CoordinateOutOfRange ax bd)
      \<longrightarrow> violated (root cfg) ax bd lat lon)"
proof -
  have inside: "encode cfg lat lon \<noteq> Inl (CoordinateOutOfRange a b)"
    if "in_box (root cfg) lat lon" for a b
  proof
    assume e: "encode cfg lat lon = Inl (CoordinateOutOfRange a b)"
    from that have "encode cfg lat lon = encode_loop cfg lat lon (levels cfg) 1 (root cfg)"
      by (simp add: encode_def in_box_def)
    with e have "CoordinateOutOfRange a b = TableIndexOutOfRange"
      using encode_loop_failure by metis
    then show False by simp
  qed
  have outside: "\<exists>a b. encode cfg lat lon = Inl (CoordinateOutOfRange a b)"
    if "\<not> in_box (root cfg) lat lon"
    using that by (auto simp: encode_def in_box_def)
  have names: "violated (root cfg) ax bd lat lon"
    if e: "encode cfg lat lon = Inl (CoordinateOutOfRange ax bd)"
  proof (cases "in_box (root cfg) lat lon")
    case True
    with inside e show ?thesis by blast
  next
    case False
    with e show ?thesis
      by (auto simp: encode_def in_box_def split: if_splits)
  qed
  from inside outside names show ?thesis by blast
qed

theorem range_rejection_witness:
  "\<not> in_box (root example_config) 2 (127 / 2) \<and>
   encode example_config 2 (127 / 2) = Inl (CoordinateOutOfRange Latitude Below) \<and>
   violated (root example_config) Latitude Below 2 (127 / 2)"
proof -
  have e: "encode example_config 2 (127 / 2) = Inl (CoordinateOutOfRange Latitude Below)"
    by (simp add: encode_def example_config_def)
  have "\<not> in_box (root example_config) 2 (127 / 2)"
    by (simp add: in_box_def example_config_def)
  with e range_rejection [of example_config 2 "127 / 2" Latitude Below]
  show ?thesis by blast
qed

text \<open>
  C4, decode validation, as amended. The claim as stated asks for both failures at once
  where both defects meet, and no order of the two validations gives that: the string
  \<open>!\<close> has the wrong length and a character outside the alphabet; the decoder that
  checks the length first does not fail with \<open>InvalidCodeSymbol\<close> on it, and the
  decoder that consumes the symbols first does not fail with \<open>InvalidCodeLength\<close>.
\<close>

theorem decode_validation_counterexample:
  "length (strip_separators example_config ''!'') \<noteq> levels example_config \<and>
   CHR ''!'' \<in> set (strip_separators example_config ''!'') \<and>
   CHR ''!'' \<notin> alphabet example_config \<and>
   decode example_config ''!'' \<noteq> Inl InvalidCodeSymbol \<and>
   decode_symbols_first example_config ''!'' \<noteq> Inl InvalidCodeLength"
proof -
  have strip: "strip_separators example_config ''!'' = ''!''"
    by (simp add: strip_separators_def example_config_def)
  have bad: "CHR ''!'' \<notin> alphabet example_config"
    by (simp add: alphabet_def example_config_def)
  then have "\<not> set ''!'' \<subseteq> alphabet example_config" by simp
  then have "decode_loop example_config (root example_config) ''!'' = Inl InvalidCodeSymbol"
    by (rule decode_loop_invalid)
  then have sf: "decode_symbols_first example_config ''!'' = Inl InvalidCodeSymbol"
    by (simp add: decode_symbols_first_def strip)
  have lf: "decode example_config ''!'' = Inl InvalidCodeLength"
    by (simp add: decode_def strip) (simp add: example_config_def)
  from strip bad sf lf show ?thesis by (simp add: example_config_def)
qed

text \<open>
  C4 as amended, for either order of the two validations. With the separators removed,
  the decoder fails with \<open>InvalidCodeLength\<close> when the remaining string does not have
  exactly \<open>L\<close> characters and all of them are in the alphabet; it fails with
  \<open>InvalidCodeSymbol\<close> when the remaining string has exactly \<open>L\<close> characters and one
  of them is outside the alphabet; when both defects meet it fails with one of the two
  kinds; and it fails with neither when the remaining string has exactly \<open>L\<close>
  characters of the alphabet. The two kinds are distinct values.
\<close>

theorem decode_validation:
  "(length (strip_separators cfg s) \<noteq> levels cfg \<and>
    set (strip_separators cfg s) \<subseteq> alphabet cfg
      \<longrightarrow> decode cfg s = Inl InvalidCodeLength \<and>
          decode_symbols_first cfg s = Inl InvalidCodeLength) \<and>
   (length (strip_separators cfg s) = levels cfg \<and>
    \<not> set (strip_separators cfg s) \<subseteq> alphabet cfg
      \<longrightarrow> decode cfg s = Inl InvalidCodeSymbol \<and>
          decode_symbols_first cfg s = Inl InvalidCodeSymbol) \<and>
   (length (strip_separators cfg s) \<noteq> levels cfg \<and>
    \<not> set (strip_separators cfg s) \<subseteq> alphabet cfg
      \<longrightarrow> (decode cfg s = Inl InvalidCodeLength \<or> decode cfg s = Inl InvalidCodeSymbol) \<and>
          (decode_symbols_first cfg s = Inl InvalidCodeLength \<or>
           decode_symbols_first cfg s = Inl InvalidCodeSymbol)) \<and>
   (length (strip_separators cfg s) = levels cfg \<and>
    set (strip_separators cfg s) \<subseteq> alphabet cfg
      \<longrightarrow> (\<exists>d. decode cfg s = Inr d \<and> decode_symbols_first cfg s = Inr d)) \<and>
   InvalidCodeLength \<noteq> InvalidCodeSymbol"
proof -
  define pin where "pin = strip_separators cfg s"
  have short_ok: "decode cfg s = Inl InvalidCodeLength \<and>
                  decode_symbols_first cfg s = Inl InvalidCodeLength"
    if len: "length pin \<noteq> levels cfg" and sub: "set pin \<subseteq> alphabet cfg"
  proof -
    obtain fb where "decode_loop cfg (root cfg) pin = Inr fb"
      using decode_loop_valid [OF sub] by blast
    with len show ?thesis
      by (simp add: decode_def decode_symbols_first_def pin_def [symmetric] Let_def)
  qed
  have bad_symbol: "decode cfg s = Inl InvalidCodeSymbol \<and>
                    decode_symbols_first cfg s = Inl InvalidCodeSymbol"
    if "length pin = levels cfg" "\<not> set pin \<subseteq> alphabet cfg"
    using that decode_loop_invalid [OF that(2)]
    by (simp add: decode_def decode_symbols_first_def pin_def [symmetric] Let_def)
  have both: "(decode cfg s = Inl InvalidCodeLength \<or> decode cfg s = Inl InvalidCodeSymbol) \<and>
              (decode_symbols_first cfg s = Inl InvalidCodeLength \<or>
               decode_symbols_first cfg s = Inl InvalidCodeSymbol)"
    if "length pin \<noteq> levels cfg" "\<not> set pin \<subseteq> alphabet cfg"
    using that decode_loop_invalid [OF that(2)]
    by (simp add: decode_def decode_symbols_first_def pin_def [symmetric] Let_def)
  have valid: "\<exists>d. decode cfg s = Inr d \<and> decode_symbols_first cfg s = Inr d"
    if len: "length pin = levels cfg" and sub: "set pin \<subseteq> alphabet cfg"
  proof -
    obtain fb where "decode_loop cfg (root cfg) pin = Inr fb"
      using decode_loop_valid [OF sub] by blast
    with len show ?thesis
      by (simp add: decode_def decode_symbols_first_def pin_def [symmetric] Let_def)
  qed
  from short_ok bad_symbol both valid show ?thesis
    unfolding pin_def by simp
qed

theorem decode_validation_witness:
  "decode example_config ''39J-49L'' = Inl InvalidCodeLength \<and>
   decode_symbols_first example_config ''39J-49L'' = Inl InvalidCodeLength \<and>
   decode example_config ''39J-49L-L8T!'' = Inl InvalidCodeSymbol \<and>
   decode_symbols_first example_config ''39J-49L-L8T!'' = Inl InvalidCodeSymbol \<and>
   (decode example_config ''!'' = Inl InvalidCodeLength \<or>
    decode example_config ''!'' = Inl InvalidCodeSymbol) \<and>
   (decode_symbols_first example_config ''!'' = Inl InvalidCodeLength \<or>
    decode_symbols_first example_config ''!'' = Inl InvalidCodeSymbol) \<and>
   (\<exists>d. decode example_config ''39J-49L-L8T4'' = Inr d \<and>
        decode_symbols_first example_config ''39J-49L-L8T4'' = Inr d)"
proof -
  have short: "length (strip_separators example_config ''39J-49L'') \<noteq> levels example_config"
              "set (strip_separators example_config ''39J-49L'') \<subseteq> alphabet example_config"
    by (simp_all add: strip_separators_def alphabet_def example_config_def)
  have bad: "length (strip_separators example_config ''39J-49L-L8T!'') = levels example_config"
            "\<not> set (strip_separators example_config ''39J-49L-L8T!'') \<subseteq> alphabet example_config"
    by (simp_all add: strip_separators_def alphabet_def example_config_def)
  have both: "length (strip_separators example_config ''!'') \<noteq> levels example_config"
             "\<not> set (strip_separators example_config ''!'') \<subseteq> alphabet example_config"
    by (simp_all add: strip_separators_def alphabet_def example_config_def)
  have good: "length (strip_separators example_config ''39J-49L-L8T4'') = levels example_config"
             "set (strip_separators example_config ''39J-49L-L8T4'') \<subseteq> alphabet example_config"
    by (simp_all add: strip_separators_def alphabet_def example_config_def)
  have 1: "decode example_config ''39J-49L'' = Inl InvalidCodeLength \<and>
           decode_symbols_first example_config ''39J-49L'' = Inl InvalidCodeLength"
    using short decode_validation [of example_config "''39J-49L''"] by blast
  have 2: "decode example_config ''39J-49L-L8T!'' = Inl InvalidCodeSymbol \<and>
           decode_symbols_first example_config ''39J-49L-L8T!'' = Inl InvalidCodeSymbol"
    using bad decode_validation [of example_config "''39J-49L-L8T!''"] by blast
  have 3: "(decode example_config ''!'' = Inl InvalidCodeLength \<or>
            decode example_config ''!'' = Inl InvalidCodeSymbol) \<and>
           (decode_symbols_first example_config ''!'' = Inl InvalidCodeLength \<or>
            decode_symbols_first example_config ''!'' = Inl InvalidCodeSymbol)"
    using both decode_validation [of example_config "''!''"] by blast
  have 4: "\<exists>d. decode example_config ''39J-49L-L8T4'' = Inr d \<and>
               decode_symbols_first example_config ''39J-49L-L8T4'' = Inr d"
    using good decode_validation [of example_config "''39J-49L-L8T4''"] by blast
  from 1 2 3 4 show ?thesis by blast
qed

text \<open>
  C5, boundary clamping safety. Whatever box a level of the encoder works on and whatever
  the coordinate, the row and the column it selects lie in 0..3; with a well-formed
  table the lookup at that cell finds a symbol of the alphabet, every cell selected on
  the way from the root box is inside the table, and the encoder never fails with an
  out-of-table index.
\<close>

theorem clamping_safety:
  assumes "config_ok cfg"
  shows "0 \<le> fst (cell_index b lat lon) \<and> fst (cell_index b lat lon) \<le> 3 \<and>
         0 \<le> snd (cell_index b lat lon) \<and> snd (cell_index b lat lon) \<le> 3 \<and>
         (\<exists>ch. symbol_at (grid cfg) (cell_index b lat lon) = Some ch \<and> ch \<in> alphabet cfg) \<and>
         (\<forall>rc \<in> set (encode_cells (root cfg) lat lon (levels cfg)). cell_ok rc) \<and>
         encode cfg lat lon \<noteq> Inl TableIndexOutOfRange"
proof -
  have g: "grid_ok (grid cfg)" using assms by (rule config_ok_grid)
  have c: "cell_ok (cell_index b lat lon)" by (rule cell_index_ok)
  have "symbol_at (grid cfg) (cell_index b lat lon)
          = Some (grid_symbol (grid cfg) (cell_index b lat lon))"
    using g c by (rule symbol_at_ok)
  moreover have "grid_symbol (grid cfg) (cell_index b lat lon) \<in> alphabet cfg"
    using grid_symbol_in_concat [OF g c] by (simp add: alphabet_def)
  ultimately have lookup:
    "\<exists>ch. symbol_at (grid cfg) (cell_index b lat lon) = Some ch \<and> ch \<in> alphabet cfg"
    by blast
  have cells: "\<forall>rc \<in> set (encode_cells (root cfg) lat lon (levels cfg)). cell_ok rc"
    by (auto dest: encode_cells_ok)
  have "encode_loop cfg lat lon (levels cfg) 1 (root cfg) \<noteq> Inl TableIndexOutOfRange"
    using g by (simp add: encode_loop_symbols)
  then have enc: "encode cfg lat lon \<noteq> Inl TableIndexOutOfRange"
    by (simp add: encode_def)
  from c lookup cells enc show ?thesis by (simp add: cell_ok_def)
qed

theorem clamping_safety_witness:
  "config_ok example_config \<and>
   raw_row (root example_config) (77 / 2) = - 1 \<and>
   raw_col (root example_config) (199 / 2) = 4 \<and>
   cell_index (root example_config) (77 / 2) (199 / 2) = (0, 3) \<and>
   symbol_at (grid example_config) (cell_index (root example_config) (77 / 2) (199 / 2))
     = Some CHR ''8'' \<and>
   list_all cell_ok
     (encode_cells (root example_config) (77 / 2) (199 / 2) (levels example_config)) \<and>
   encode example_config (77 / 2) (199 / 2) \<noteq> Inl TableIndexOutOfRange"
proof -
  have raw: "raw_row (root example_config) (77 / 2) = - 1"
            "raw_col (root example_config) (199 / 2) = 4"
    by (simp_all add: raw_row_def raw_col_def example_config_def)
  then have idx: "cell_index (root example_config) (77 / 2) (199 / 2) = (0, 3)"
    by (simp add: cell_index_def clamp03_def)
  have sym: "symbol_at (grid example_config) (0, 3) = Some CHR ''8''"
    by (simp add: symbol_at_def example_config_def)
  from raw idx sym example_config_ok
    clamping_safety [OF example_config_ok,
      of "root example_config" "77 / 2" "199 / 2"]
  show ?thesis by (simp add: list_all_iff)
qed

section \<open>Properties of the adapter\<close>

subsection \<open>The validation helpers\<close>

lemma isValidNumber_iff:
  "isValidNumber v \<longleftrightarrow>
     (\<exists>x. v = JNum (Finite x) \<or> (\<exists>s. v = JStr s \<and> parseFloat s = Finite x))"
  by (cases v) (auto simp: isValidNumber_def isNaN_def isFinite_def split: jsnum.splits)

lemma isValidNumber_finite: "isValidNumber v \<Longrightarrow> \<exists>x. parseFloat_of v = Finite x"
  by (auto simp: isValidNumber_iff)

lemma isValidNumber_not_missing: "isValidNumber v \<Longrightarrow> \<not> is_missing v"
  by (auto simp: isValidNumber_iff is_missing_def)

lemma parseFloat_empty: "parseFloat [] = NaN"
  by (simp add: parseFloat_def)

lemma query_number_truthy: "is_query_value v \<Longrightarrow> isValidNumber v \<Longrightarrow> truthy v"
  by (cases v) (auto simp: isValidNumber_iff parseFloat_empty)

lemma trim_empty_iff: "trim s = [] \<longleftrightarrow> is_blank s"
proof
  assume t: "trim s = []"
  show "is_blank s"
  proof (rule ccontr)
    assume "\<not> is_blank s"
    then have ne: "dropWhile is_js_space s \<noteq> []"
      by (auto simp: is_blank_def dropWhile_eq_Nil_conv)
    then have "\<not> is_js_space (hd (dropWhile is_js_space s))"
      by (rule hd_dropWhile)
    moreover have "hd (dropWhile is_js_space s) \<in> set (rev (dropWhile is_js_space s))"
      using ne by simp
    ultimately have "dropWhile is_js_space (rev (dropWhile is_js_space s)) \<noteq> []"
      by (auto simp: dropWhile_eq_Nil_conv)
    with t show False by (simp add: trim_def)
  qed
next
  assume "is_blank s"
  then have "dropWhile is_js_space s = []"
    by (simp add: is_blank_def dropWhile_eq_Nil_conv)
  then show "trim s = []" by (simp add: trim_def del: dropWhile_eq_Nil_conv)
qed

lemma isValidString_iff: "isValidString v \<longleftrightarrow> (\<exists>s. v = JStr s \<and> \<not> is_blank s)"
  by (cases v) (simp_all add: isValidString_def trim_empty_iff)

lemma starts_with_iff: "starts_with t s \<longleftrightarrow> (\<exists>b. s = t @ b)"
proof
  assume "starts_with t s"
  then have "s = t @ drop (length t) s"
    by (metis append_take_drop_id starts_with_def)
  then show "\<exists>b. s = t @ b" ..
next
  assume "\<exists>b. s = t @ b"
  then show "starts_with t s" by (auto simp: starts_with_def)
qed

lemma str_includes_iff: "str_includes s t \<longleftrightarrow> (\<exists>a b. s = a @ t @ b)"
proof (induction s)
  case Nil
  show ?case by auto
next
  case (Cons c s)
  show ?case
  proof
    assume "str_includes (c # s) t"
    then consider "starts_with t (c # s)" | "str_includes s t" by auto
    then show "\<exists>a b. c # s = a @ t @ b"
    proof cases
      case 1
      then obtain b where "c # s = [] @ t @ b" by (auto simp: starts_with_iff)
      then show ?thesis by blast
    next
      case 2
      then obtain a b where "s = a @ t @ b" using Cons.IH by blast
      then have "c # s = (c # a) @ t @ b" by simp
      then show ?thesis by blast
    qed
  next
    assume "\<exists>a b. c # s = a @ t @ b"
    then obtain a b where ab: "c # s = a @ t @ b" by blast
    show "str_includes (c # s) t"
    proof (cases a)
      case Nil
      with ab have "starts_with t (c # s)" by (auto simp: starts_with_iff)
      then show ?thesis by simp
    next
      case (Cons a0 a')
      with ab have "s = a' @ t @ b" by simp
      then have "str_includes s t" using Cons.IH by blast
      then show ?thesis by simp
    qed
  qed
qed

lemma str_includes_empty: "\<not> str_includes [] ''application/json''"
  by simp

subsection \<open>The core of the example constants on malformed codes\<close>

lemma example_decode_short:
  "example_getLatLngFromDigiPin ''39J-49L'' = Inl InvalidCodeLength"
  by (simp add: example_getLatLngFromDigiPin_def decode_def strip_separators_def
        example_config_def)

lemma example_decode_bad_symbol:
  "example_getLatLngFromDigiPin ''39J-49L-L8T!'' = Inl InvalidCodeSymbol"
proof -
  have "\<not> set ''39J49LL8T!'' \<subseteq> alphabet example_config"
    by (simp add: alphabet_def example_config_def)
  then have "decode_loop example_config (root example_config) ''39J49LL8T!''
               = Inl InvalidCodeSymbol"
    by (rule decode_loop_invalid)
  moreover have "strip_separators example_config ''39J-49L-L8T!'' = ''39J49LL8T!''"
    by (simp add: strip_separators_def example_config_def)
  ultimately show ?thesis
    by (simp add: example_getLatLngFromDigiPin_def decode_def example_config_def)
qed

subsection \<open>Evaluating the helpers\<close>

lemma parseFloat_trailing: "parseFloat ''77.2abc'' = Finite (772 / 10)"
  by (simp add: parseFloat_def is_js_space_def str_unsigned_decimal_def starts_with_def
        is_digit_def digits_value_def digit_value_def pow10_def exponent_part_def
        round_overflow_def)

lemma parseFloat_corner:
  "parseFloat ''38.5xyz'' = Finite (77 / 2)" "parseFloat ''99.5abc'' = Finite (199 / 2)"
  by (simp_all add: parseFloat_def is_js_space_def str_unsigned_decimal_def starts_with_def
        is_digit_def digits_value_def digit_value_def pow10_def exponent_part_def
        round_overflow_def)

lemma parseFloat_plain:
  "parseFloat ''38.5'' = Finite (77 / 2)"
  by (simp add: parseFloat_def is_js_space_def str_unsigned_decimal_def starts_with_def
        is_digit_def digits_value_def digit_value_def pow10_def exponent_part_def
        round_overflow_def)

lemma example_getDigiPin_corner:
  "example_getDigiPin (Finite (77 / 2)) (Finite (199 / 2)) = Inr ''888-888-8888''"
  by (simp add: example_getDigiPin_def example_encode_corner)

lemma example_getDigiPin_below:
  "x < 5 / 2 \<Longrightarrow>
   example_getDigiPin (Finite x) (Finite y) = Inl (CoordinateOutOfRange Latitude Below)"
  by (simp add: example_getDigiPin_def encode_def example_config_def)

lemma parseFloat_two: "parseFloat ''2'' = Finite 2"
  by (simp add: parseFloat_def is_js_space_def str_unsigned_decimal_def starts_with_def
        is_digit_def digits_value_def digit_value_def pow10_def exponent_part_def
        round_overflow_def)

lemma parseFloat_word: "parseFloat ''abc'' = NaN"
  by (simp add: parseFloat_def is_js_space_def str_unsigned_decimal_def starts_with_def
        is_digit_def)

lemma not_blank_example: "\<not> is_blank ''39J-49L''" "\<not> is_blank ''39J-49L-L8T!''"
  by (simp_all add: is_blank_def is_js_space_def)

lemma blank_example: "is_blank ''  ''" "is_blank []"
  by (simp_all add: is_blank_def is_js_space_def)

subsection \<open>The claims about the adapter\<close>

text \<open>
  C6, distinct failure kinds end to end, as amended. The claim as stated fails: two POST
  decode requests make the core fail with the two distinct kinds \<open>InvalidCodeLength\<close>
  and \<open>InvalidCodeSymbol\<close>, and both responses carry the code \<open>DECODING_FAILED\<close>.
\<close>

theorem failure_kinds_counterexample:
  "example_getLatLngFromDigiPin ''39J-49L'' = Inl InvalidCodeLength \<and>
   example_getLatLngFromDigiPin ''39J-49L-L8T!'' = Inl InvalidCodeSymbol \<and>
   InvalidCodeLength \<noteq> InvalidCodeSymbol \<and>
   error_code (fst (post_decode example_getLatLngFromDigiPin kind_name
     (post_request ''/api/digipin/decode'' [(''digipin'', JStr ''39J-49L'')])))
     = JStr ''DECODING_FAILED'' \<and>
   error_code (fst (post_decode example_getLatLngFromDigiPin kind_name
     (post_request ''/api/digipin/decode'' [(''digipin'', JStr ''39J-49L-L8T!'')])))
     = JStr ''DECODING_FAILED''"
  using not_blank_example
  by (simp add: example_decode_short example_decode_bad_symbol post_decode_def get_prop_def
        isValidString_iff error_code_def post_request_def)

text \<open>
  C6 as amended: whatever the kind of the core's failure, a decode route answers it with
  status 400 and the code \<open>DECODING_FAILED\<close>, an encode route with status 400 and the
  code \<open>ENCODING_FAILED\<close>; the kind reaches the response only as the message of the
  failure in the field \<open>error\<close>. The two codes differ from each other.
\<close>

theorem core_failure_codes:
  fixes getDigiPin :: "jsnum \<Rightarrow> jsnum \<Rightarrow> 'e + string"
    and getLatLngFromDigiPin :: "string \<Rightarrow> 'e + jsval"
  shows
  "(get_prop (body req) ''digipin'' = JStr s \<and> \<not> is_blank s \<and>
    getLatLngFromDigiPin s = Inl e \<longrightarrow>
      fst (post_decode getLatLngFromDigiPin message req)
        = \<lparr> status = 400,
            json = JObj [(''error'', JStr (message e)), (''code'', JStr ''DECODING_FAILED'')] \<rparr>) \<and>
   (get_prop (query req) ''digipin'' = JStr s \<and> \<not> is_blank s \<and>
    getLatLngFromDigiPin s = Inl e \<longrightarrow>
      fst (get_decode getLatLngFromDigiPin message req)
        = \<lparr> status = 400,
            json = JObj [(''error'', JStr (message e)), (''code'', JStr ''DECODING_FAILED'')] \<rparr>) \<and>
   (isValidNumber (get_prop (body req) ''latitude'') \<and>
    isValidNumber (get_prop (body req) ''longitude'') \<and>
    getDigiPin (parseFloat_of (get_prop (body req) ''latitude''))
               (parseFloat_of (get_prop (body req) ''longitude'')) = Inl e \<longrightarrow>
      fst (post_encode getDigiPin message req)
        = \<lparr> status = 400,
            json = JObj [(''error'', JStr (message e)), (''code'', JStr ''ENCODING_FAILED'')] \<rparr>) \<and>
   (is_query_value (get_prop (query req) ''latitude'') \<and>
    is_query_value (get_prop (query req) ''longitude'') \<and>
    isValidNumber (get_prop (query req) ''latitude'') \<and>
    isValidNumber (get_prop (query req) ''longitude'') \<and>
    getDigiPin (parseFloat_of (get_prop (query req) ''latitude''))
               (parseFloat_of (get_prop (query req) ''longitude'')) = Inl e \<longrightarrow>
      fst (get_encode getDigiPin message req)
        = \<lparr> status = 400,
            json = JObj [(''error'', JStr (message e)), (''code'', JStr ''ENCODING_FAILED'')] \<rparr>) \<and>
   ''ENCODING_FAILED'' \<noteq> ''DECODING_FAILED''"
proof -
  have pd: "fst (post_decode getLatLngFromDigiPin message req)
        = \<lparr> status = 400,
            json = JObj [(''error'', JStr (message e)), (''code'', JStr ''DECODING_FAILED'')] \<rparr>"
    if "get_prop (body req) ''digipin'' = JStr s" "\<not> is_blank s"
       "getLatLngFromDigiPin s = Inl e"
    using that by (simp add: post_decode_def isValidString_iff)
  have blank_empty: "is_blank []" by (simp add: is_blank_def)
  have gd: "fst (get_decode getLatLngFromDigiPin message req)
        = \<lparr> status = 400,
            json = JObj [(''error'', JStr (message e)), (''code'', JStr ''DECODING_FAILED'')] \<rparr>"
    if "get_prop (query req) ''digipin'' = JStr s" "\<not> is_blank s"
       "getLatLngFromDigiPin s = Inl e"
  proof -
    from that(2) blank_empty have "s \<noteq> []" by auto
    with that show ?thesis by (simp add: get_decode_def isValidString_iff)
  qed
  have pe: "fst (post_encode getDigiPin message req)
        = \<lparr> status = 400,
            json = JObj [(''error'', JStr (message e)), (''code'', JStr ''ENCODING_FAILED'')] \<rparr>"
    if "isValidNumber (get_prop (body req) ''latitude'')"
       "isValidNumber (get_prop (body req) ''longitude'')"
       "getDigiPin (parseFloat_of (get_prop (body req) ''latitude''))
                   (parseFloat_of (get_prop (body req) ''longitude'')) = Inl e"
  proof -
    from that(1,2) have "\<not> is_missing (get_prop (body req) ''latitude'')"
      "\<not> is_missing (get_prop (body req) ''longitude'')"
      by (simp_all add: isValidNumber_not_missing)
    with that show ?thesis by (simp add: post_encode_def is_missing_def Let_def)
  qed
  have ge: "fst (get_encode getDigiPin message req)
        = \<lparr> status = 400,
            json = JObj [(''error'', JStr (message e)), (''code'', JStr ''ENCODING_FAILED'')] \<rparr>"
    if "is_query_value (get_prop (query req) ''latitude'')"
       "is_query_value (get_prop (query req) ''longitude'')"
       "isValidNumber (get_prop (query req) ''latitude'')"
       "isValidNumber (get_prop (query req) ''longitude'')"
       "getDigiPin (parseFloat_of (get_prop (query req) ''latitude''))
                   (parseFloat_of (get_prop (query req) ''longitude'')) = Inl e"
  proof -
    from that(1-4) have "truthy (get_prop (query req) ''latitude'')"
      "truthy (get_prop (query req) ''longitude'')"
      by (simp_all add: query_number_truthy)
    with that show ?thesis by (simp add: get_encode_def Let_def)
  qed
  from pd gd pe ge show ?thesis by simp
qed

theorem core_failure_codes_witness:
  "fst (post_decode example_getLatLngFromDigiPin kind_name
     (post_request ''/api/digipin/decode'' [(''digipin'', JStr ''39J-49L-L8T!'')]))
     = \<lparr> status = 400,
         json = JObj [(''error'', JStr ''InvalidCodeSymbol''),
                      (''code'', JStr ''DECODING_FAILED'')] \<rparr> \<and>
   fst (get_decode example_getLatLngFromDigiPin kind_name
     (get_request ''/api/digipin/decode'' [(''digipin'', JStr ''39J-49L'')]))
     = \<lparr> status = 400,
         json = JObj [(''error'', JStr ''InvalidCodeLength''),
                      (''code'', JStr ''DECODING_FAILED'')] \<rparr> \<and>
   fst (post_encode example_getDigiPin kind_name
     (post_request ''/api/digipin/encode''
        [(''latitude'', JStr ''2''), (''longitude'', JStr ''77.2abc'')]))
     = \<lparr> status = 400,
         json = JObj [(''error'', JStr ''CoordinateOutOfRange''),
                      (''code'', JStr ''ENCODING_FAILED'')] \<rparr> \<and>
   fst (get_encode example_getDigiPin kind_name
     (get_request ''/api/digipin/encode''
        [(''latitude'', JStr ''2''), (''longitude'', JStr ''77.2abc'')]))
     = \<lparr> status = 400,
         json = JObj [(''error'', JStr ''CoordinateOutOfRange''),
                      (''code'', JStr ''ENCODING_FAILED'')] \<rparr>"
proof -
  define pd where
    "pd = post_request ''/api/digipin/decode'' [(''digipin'', JStr ''39J-49L-L8T!'')]"
  define gd where
    "gd = get_request ''/api/digipin/decode'' [(''digipin'', JStr ''39J-49L'')]"
  define pe where
    "pe = post_request ''/api/digipin/encode''
            [(''latitude'', JStr ''2''), (''longitude'', JStr ''77.2abc'')]"
  define ge where
    "ge = get_request ''/api/digipin/encode''
            [(''latitude'', JStr ''2''), (''longitude'', JStr ''77.2abc'')]"
  have b: "get_prop (body pd) ''digipin'' = JStr ''39J-49L-L8T!''"
          "get_prop (body pe) ''latitude'' = JStr ''2''"
          "get_prop (body pe) ''longitude'' = JStr ''77.2abc''"
    and q: "get_prop (query gd) ''digipin'' = JStr ''39J-49L''"
           "get_prop (query ge) ''latitude'' = JStr ''2''"
           "get_prop (query ge) ''longitude'' = JStr ''77.2abc''"
    by (simp_all add: pd_def pe_def gd_def ge_def post_request_def get_request_def
          get_prop_def)
  have v: "isValidNumber (JStr ''2'')" "isValidNumber (JStr ''77.2abc'')"
    by (simp_all add: isValidNumber_def isNaN_def isFinite_def parseFloat_two
          parseFloat_trailing)
  have e: "example_getDigiPin (parseFloat_of (JStr ''2'')) (parseFloat_of (JStr ''77.2abc''))
             = Inl (CoordinateOutOfRange Latitude Below)"
    by (simp add: parseFloat_two parseFloat_trailing example_getDigiPin_def encode_def
          example_config_def)
  have 1: "fst (post_decode example_getLatLngFromDigiPin kind_name pd)
        = \<lparr> status = 400,
            json = JObj [(''error'', JStr (kind_name InvalidCodeSymbol)),
                         (''code'', JStr ''DECODING_FAILED'')] \<rparr>"
    using core_failure_codes [of pd "''39J-49L-L8T!''" example_getLatLngFromDigiPin
            InvalidCodeSymbol kind_name example_getDigiPin]
      b not_blank_example example_decode_bad_symbol by simp
  have 2: "fst (get_decode example_getLatLngFromDigiPin kind_name gd)
        = \<lparr> status = 400,
            json = JObj [(''error'', JStr (kind_name InvalidCodeLength)),
                         (''code'', JStr ''DECODING_FAILED'')] \<rparr>"
    using core_failure_codes [of gd "''39J-49L''" example_getLatLngFromDigiPin
            InvalidCodeLength kind_name example_getDigiPin]
      q not_blank_example example_decode_short by simp
  have 3: "fst (post_encode example_getDigiPin kind_name pe)
        = \<lparr> status = 400,
            json = JObj [(''error'', JStr (kind_name (CoordinateOutOfRange Latitude Below))),
                         (''code'', JStr ''ENCODING_FAILED'')] \<rparr>"
    using core_failure_codes [of pe "''39J-49L''" example_getLatLngFromDigiPin
            "CoordinateOutOfRange Latitude Below" kind_name example_getDigiPin]
      b v e by simp
  have 4: "fst (get_encode example_getDigiPin kind_name ge)
        = \<lparr> status = 400,
            json = JObj [(''error'', JStr (kind_name (CoordinateOutOfRange Latitude Below))),
                         (''code'', JStr ''ENCODING_FAILED'')] \<rparr>"
    using core_failure_codes [of ge "''39J-49L''" example_getLatLngFromDigiPin
            "CoordinateOutOfRange Latitude Below" kind_name example_getDigiPin]
      q v e by simp
  from 1 2 3 4 show ?thesis unfolding pd_def gd_def pe_def ge_def by simp
qed

text \<open>
  C7, encode-side input gating. On the POST route and on the GET route, a latitude or
  longitude that is missing or is not a valid number is answered with status 400 and
  one of the route's codes, and the core is not called: the call list is empty and the
  outcome is the same whatever core the handler is given. When both pass validation
  (on the GET route they are values of a parsed query string), the core is called once,
  with \<^verbatim>\<open>parseFloat\<close> of each, and the response is made from what that call
  returns: status 200 with the code, or status 400 with the failure's message and
  \<open>ENCODING_FAILED\<close>.
\<close>

theorem encode_input_gating:
  fixes getDigiPin :: "jsnum \<Rightarrow> jsnum \<Rightarrow> 'e + string"
    and otherDigiPin :: "jsnum \<Rightarrow> jsnum \<Rightarrow> 'f + string"
  shows
  "(let lat = get_prop (body req) ''latitude'';
        lon = get_prop (body req) ''longitude'';
        out = post_encode getDigiPin message req
    in (is_missing lat \<or> is_missing lon \<or> \<not> isValidNumber lat \<or> \<not> isValidNumber lon \<longrightarrow>
          status (fst out) = 400 \<and>
          error_code (fst out) \<in> {JStr ''MISSING_LATITUDE'', JStr ''MISSING_LONGITUDE'',
                                   JStr ''INVALID_LATITUDE'', JStr ''INVALID_LONGITUDE''} \<and>
          snd out = [] \<and>
          post_encode otherDigiPin otherMessage req = out) \<and>
       (isValidNumber lat \<and> isValidNumber lon \<longrightarrow>
          snd out = [(parseFloat_of lat, parseFloat_of lon)] \<and>
          fst out =
            (case getDigiPin (parseFloat_of lat) (parseFloat_of lon) of
               Inr code \<Rightarrow> \<lparr> status = 200, json = JObj [(''digipin'', JStr code)] \<rparr>
             | Inl err \<Rightarrow>
                 \<lparr> status = 400,
                   json = JObj [(''error'', JStr (message err)),
                                (''code'', JStr ''ENCODING_FAILED'')] \<rparr>))) \<and>
   (let lat = get_prop (query req) ''latitude'';
        lon = get_prop (query req) ''longitude'';
        out = get_encode getDigiPin message req
    in (is_missing lat \<or> is_missing lon \<or> \<not> isValidNumber lat \<or> \<not> isValidNumber lon \<longrightarrow>
          status (fst out) = 400 \<and>
          error_code (fst out) \<in> {JStr ''MISSING_PARAMETERS'',
                                   JStr ''INVALID_LATITUDE'', JStr ''INVALID_LONGITUDE''} \<and>
          snd out = [] \<and>
          get_encode otherDigiPin otherMessage req = out) \<and>
       (is_query_value lat \<and> is_query_value lon \<and> isValidNumber lat \<and> isValidNumber lon \<longrightarrow>
          snd out = [(parseFloat_of lat, parseFloat_of lon)] \<and>
          fst out =
            (case getDigiPin (parseFloat_of lat) (parseFloat_of lon) of
               Inr code \<Rightarrow> \<lparr> status = 200, json = JObj [(''digipin'', JStr code)] \<rparr>
             | Inl err \<Rightarrow>
                 \<lparr> status = 400,
                   json = JObj [(''error'', JStr (message err)),
                                (''code'', JStr ''ENCODING_FAILED'')] \<rparr>)))"
proof -
  define lat where "lat = get_prop (body req) ''latitude''"
  define lon where "lon = get_prop (body req) ''longitude''"
  define qlat where "qlat = get_prop (query req) ''latitude''"
  define qlon where "qlon = get_prop (query req) ''longitude''"
  define post where "post = post_encode getDigiPin message req"
  define gt where "gt = get_encode getDigiPin message req"
  have post_reject:
    "status (fst post) = 400 \<and>
     error_code (fst post) \<in> {JStr ''MISSING_LATITUDE'', JStr ''MISSING_LONGITUDE'',
                               JStr ''INVALID_LATITUDE'', JStr ''INVALID_LONGITUDE''} \<and>
     snd post = [] \<and>
     post_encode otherDigiPin otherMessage req = post"
    if "is_missing lat \<or> is_missing lon \<or> \<not> isValidNumber lat \<or> \<not> isValidNumber lon"
    using that unfolding post_def post_encode_def lat_def [symmetric] lon_def [symmetric]
    by (auto simp: Let_def is_missing_def error_code_def get_prop_def)
  have post_accept:
    "snd post = [(parseFloat_of lat, parseFloat_of lon)] \<and>
     fst post =
       (case getDigiPin (parseFloat_of lat) (parseFloat_of lon) of
          Inr code \<Rightarrow> \<lparr> status = 200, json = JObj [(''digipin'', JStr code)] \<rparr>
        | Inl err \<Rightarrow>
            \<lparr> status = 400,
              json = JObj [(''error'', JStr (message err)),
                           (''code'', JStr ''ENCODING_FAILED'')] \<rparr>)"
    if "isValidNumber lat" "isValidNumber lon"
  proof -
    from that have "\<not> is_missing lat" "\<not> is_missing lon"
      by (simp_all add: isValidNumber_not_missing)
    with that show ?thesis
      unfolding post_def post_encode_def lat_def [symmetric] lon_def [symmetric]
      by (simp add: Let_def is_missing_def split: sum.splits)
  qed
  have missing_falsy: "\<not> truthy v" if "is_missing v" for v
    using that by (auto simp: is_missing_def)
  have get_reject:
    "status (fst gt) = 400 \<and>
     error_code (fst gt) \<in> {JStr ''MISSING_PARAMETERS'',
                             JStr ''INVALID_LATITUDE'', JStr ''INVALID_LONGITUDE''} \<and>
     snd gt = [] \<and>
     get_encode otherDigiPin otherMessage req = gt"
    if "is_missing qlat \<or> is_missing qlon \<or> \<not> isValidNumber qlat \<or> \<not> isValidNumber qlon"
    using that missing_falsy [of qlat] missing_falsy [of qlon]
    unfolding gt_def get_encode_def qlat_def [symmetric] qlon_def [symmetric]
    by (auto simp: Let_def error_code_def get_prop_def)
  have get_accept:
    "snd gt = [(parseFloat_of qlat, parseFloat_of qlon)] \<and>
     fst gt =
       (case getDigiPin (parseFloat_of qlat) (parseFloat_of qlon) of
          Inr code \<Rightarrow> \<lparr> status = 200, json = JObj [(''digipin'', JStr code)] \<rparr>
        | Inl err \<Rightarrow>
            \<lparr> status = 400,
              json = JObj [(''error'', JStr (message err)),
                           (''code'', JStr ''ENCODING_FAILED'')] \<rparr>)"
    if "is_query_value qlat" "is_query_value qlon" "isValidNumber qlat" "isValidNumber qlon"
  proof -
    from that have "truthy qlat" "truthy qlon"
      by (simp_all add: query_number_truthy)
    with that show ?thesis
      unfolding gt_def get_encode_def qlat_def [symmetric] qlon_def [symmetric]
      by (simp add: Let_def split: sum.splits)
  qed
  from post_reject post_accept get_reject get_accept show ?thesis
    unfolding Let_def lat_def qlat_def lon_def qlon_def post_def gt_def by blast
qed

theorem encode_input_gating_witness:
  "post_encode example_getDigiPin kind_name
     (post_request ''/api/digipin/encode''
        [(''latitude'', JStr ''abc''), (''longitude'', JNum (Finite (199 / 2)))])
     = (\<lparr> status = 400,
          json = JObj [(''error'', JStr ''Invalid latitude: must be a valid number''),
                       (''code'', JStr ''INVALID_LATITUDE'')] \<rparr>, []) \<and>
   post_encode example_getDigiPin kind_name
     (post_request ''/api/digipin/encode''
        [(''latitude'', JStr ''38.5''), (''longitude'', JNum (Finite (199 / 2)))])
     = (\<lparr> status = 200, json = JObj [(''digipin'', JStr ''888-888-8888'')] \<rparr>,
        [(Finite (77 / 2), Finite (199 / 2))]) \<and>
   get_encode example_getDigiPin kind_name
     (get_request ''/api/digipin/encode'' [(''latitude'', JStr ''2'')])
     = (\<lparr> status = 400,
          json = JObj [(''error'',
                        JStr ''Missing required query parameters: latitude and longitude''),
                       (''code'', JStr ''MISSING_PARAMETERS'')] \<rparr>, []) \<and>
   get_encode example_getDigiPin kind_name
     (get_request ''/api/digipin/encode''
        [(''latitude'', JStr ''2''), (''longitude'', JStr ''77.2abc'')])
     = (\<lparr> status = 400,
          json = JObj [(''error'', JStr ''CoordinateOutOfRange''),
                       (''code'', JStr ''ENCODING_FAILED'')] \<rparr>,
        [(Finite 2, Finite (772 / 10))])"
proof -
  define r1 where "r1 = post_request ''/api/digipin/encode''
        [(''latitude'', JStr ''abc''), (''longitude'', JNum (Finite (199 / 2)))]"
  define r2 where "r2 = post_request ''/api/digipin/encode''
        [(''latitude'', JStr ''38.5''), (''longitude'', JNum (Finite (199 / 2)))]"
  define r3 where "r3 = get_request ''/api/digipin/encode'' [(''latitude'', JStr ''2'')]"
  define r4 where "r4 = get_request ''/api/digipin/encode''
        [(''latitude'', JStr ''2''), (''longitude'', JStr ''77.2abc'')]"
  have bad: "\<not> isValidNumber (JStr ''abc'')"
    by (simp add: isValidNumber_def isNaN_def parseFloat_word)
  have good: "isValidNumber (JStr ''2'')" "isValidNumber (JStr ''77.2abc'')"
             "isValidNumber (JStr ''38.5'')" "isValidNumber (JNum (Finite (199 / 2)))"
    by (simp_all add: isValidNumber_def isNaN_def isFinite_def parseFloat_two
          parseFloat_trailing parseFloat_plain)
  have f1: "fst (post_encode example_getDigiPin kind_name r1)
     = \<lparr> status = 400,
         json = JObj [(''error'', JStr ''Invalid latitude: must be a valid number''),
                      (''code'', JStr ''INVALID_LATITUDE'')] \<rparr>"
    using bad good by (simp add: post_encode_def r1_def post_request_def get_prop_def)
  have "\<not> isValidNumber (get_prop (body r1) ''latitude'')"
    using bad by (simp add: r1_def post_request_def get_prop_def)
  then have s1: "snd (post_encode example_getDigiPin kind_name r1) = []"
    using encode_input_gating [of r1 example_getDigiPin kind_name example_getDigiPin kind_name]
    by (simp add: Let_def)
  have p2: "get_prop (body r2) ''latitude'' = JStr ''38.5''"
           "get_prop (body r2) ''longitude'' = JNum (Finite (199 / 2))"
    by (simp_all add: r2_def post_request_def get_prop_def)
  have 2: "post_encode example_getDigiPin kind_name r2
     = (\<lparr> status = 200, json = JObj [(''digipin'', JStr ''888-888-8888'')] \<rparr>,
        [(Finite (77 / 2), Finite (199 / 2))])"
    using encode_input_gating [of r2 example_getDigiPin kind_name example_getDigiPin kind_name]
      good
    by (simp add: Let_def p2 parseFloat_plain example_getDigiPin_corner prod_eq_iff)
  have f3: "fst (get_encode example_getDigiPin kind_name r3)
     = \<lparr> status = 400,
         json = JObj [(''error'',
                       JStr ''Missing required query parameters: latitude and longitude''),
                      (''code'', JStr ''MISSING_PARAMETERS'')] \<rparr>"
    using good by (simp add: get_encode_def r3_def get_request_def get_prop_def)
  have "is_missing (get_prop (query r3) ''longitude'')"
    by (simp add: r3_def get_request_def get_prop_def is_missing_def)
  then have s3: "snd (get_encode example_getDigiPin kind_name r3) = []"
    using encode_input_gating [of r3 example_getDigiPin kind_name example_getDigiPin kind_name]
    by (simp add: Let_def)
  have p4: "get_prop (query r4) ''latitude'' = JStr ''2''"
           "get_prop (query r4) ''longitude'' = JStr ''77.2abc''"
    by (simp_all add: r4_def get_request_def get_prop_def)
  have 4: "get_encode example_getDigiPin kind_name r4
     = (\<lparr> status = 400,
          json = JObj [(''error'', JStr ''CoordinateOutOfRange''),
                       (''code'', JStr ''ENCODING_FAILED'')] \<rparr>,
        [(Finite 2, Finite (772 / 10))])"
    using encode_input_gating [of r4 example_getDigiPin kind_name example_getDigiPin kind_name]
      good
    by (simp add: Let_def p4 parseFloat_two parseFloat_trailing example_getDigiPin_below
          prod_eq_iff)
  from f1 s1 2 f3 s3 4 show ?thesis
    unfolding r1_def r2_def r3_def r4_def by (simp add: prod_eq_iff)
qed

text \<open>
  C8, decode-side input gating, as amended. The claim as stated fails on the GET route
  for the empty string: \<^verbatim>\<open>?digipin=\<close> is answered with \<open>MISSING_DIGIPIN\<close>,
  not with \<open>INVALID_DIGIPIN\<close>.
\<close>

theorem decode_input_gating_counterexample:
  "get_prop (query (get_request ''/api/digipin/decode'' [(''digipin'', JStr [])])) ''digipin''
     = JStr [] \<and>
   is_blank [] \<and>
   error_code (fst (get_decode example_getLatLngFromDigiPin kind_name
     (get_request ''/api/digipin/decode'' [(''digipin'', JStr [])])))
     = JStr ''MISSING_DIGIPIN'' \<and>
   error_code (fst (get_decode example_getLatLngFromDigiPin kind_name
     (get_request ''/api/digipin/decode'' [(''digipin'', JStr [])])))
     \<noteq> JStr ''INVALID_DIGIPIN''"
  by (simp add: get_decode_def get_request_def get_prop_def error_code_def is_blank_def)

text \<open>
  C8 as amended. On the POST route a digipin that is \<open>undefined\<close> or \<open>null\<close> is
  answered with \<open>MISSING_DIGIPIN\<close>, any other value that is not a string with
  \<open>INVALID_DIGIPIN_TYPE\<close>, and a string that is empty or all white space with
  \<open>INVALID_DIGIPIN\<close>. On the GET route a digipin that is absent, empty or otherwise
  falsy is answered with \<open>MISSING_DIGIPIN\<close>, a truthy value that is not a string with
  \<open>INVALID_DIGIPIN_TYPE\<close>, and a non-empty string of white space with
  \<open>INVALID_DIGIPIN\<close>. All of these have status 400 and the core is not called: the
  call list is empty and the outcome is the same whatever core the handler is given.
  On both routes every other string is passed to the core unchanged, once, and the
  response is made from what that call returns: status 200 with the returned
  coordinates, or status 400 with the failure's message and \<open>DECODING_FAILED\<close>.
\<close>

theorem decode_input_gating:
  fixes getLatLngFromDigiPin :: "string \<Rightarrow> 'e + jsval"
    and otherLatLng :: "string \<Rightarrow> 'f + jsval"
  shows
  "(let digipin = get_prop (body req) ''digipin'';
        out = post_decode getLatLngFromDigiPin message req
    in (is_missing digipin \<longrightarrow>
          status (fst out) = 400 \<and> error_code (fst out) = JStr ''MISSING_DIGIPIN'' \<and>
          snd out = [] \<and> post_decode otherLatLng otherMessage req = out) \<and>
       (\<not> is_missing digipin \<and> typeof digipin \<noteq> ''string'' \<longrightarrow>
          status (fst out) = 400 \<and> error_code (fst out) = JStr ''INVALID_DIGIPIN_TYPE'' \<and>
          snd out = [] \<and> post_decode otherLatLng otherMessage req = out) \<and>
       (\<forall>s. digipin = JStr s \<and> is_blank s \<longrightarrow>
          status (fst out) = 400 \<and> error_code (fst out) = JStr ''INVALID_DIGIPIN'' \<and>
          snd out = [] \<and> post_decode otherLatLng otherMessage req = out) \<and>
       (\<forall>s. digipin = JStr s \<and> \<not> is_blank s \<longrightarrow>
          snd out = [s] \<and>
          fst out =
            (case getLatLngFromDigiPin s of
               Inr coords \<Rightarrow> \<lparr> status = 200, json = coords \<rparr>
             | Inl err \<Rightarrow>
                 \<lparr> status = 400,
                   json = JObj [(''error'', JStr (message err)),
                                (''code'', JStr ''DECODING_FAILED'')] \<rparr>))) \<and>
   (let digipin = get_prop (query req) ''digipin'';
        out = get_decode getLatLngFromDigiPin message req
    in (\<not> truthy digipin \<longrightarrow>
          status (fst out) = 400 \<and> error_code (fst out) = JStr ''MISSING_DIGIPIN'' \<and>
          snd out = [] \<and> get_decode otherLatLng otherMessage req = out) \<and>
       (truthy digipin \<and> typeof digipin \<noteq> ''string'' \<longrightarrow>
          status (fst out) = 400 \<and> error_code (fst out) = JStr ''INVALID_DIGIPIN_TYPE'' \<and>
          snd out = [] \<and> get_decode otherLatLng otherMessage req = out) \<and>
       (\<forall>s. digipin = JStr s \<and> s \<noteq> [] \<and> is_blank s \<longrightarrow>
          status (fst out) = 400 \<and> error_code (fst out) = JStr ''INVALID_DIGIPIN'' \<and>
          snd out = [] \<and> get_decode otherLatLng otherMessage req = out) \<and>
       (\<forall>s. digipin = JStr s \<and> \<not> is_blank s \<longrightarrow>
          snd out = [s] \<and>
          fst out =
            (case getLatLngFromDigiPin s of
               Inr coords \<Rightarrow> \<lparr> status = 200, json = coords \<rparr>
             | Inl err \<Rightarrow>
                 \<lparr> status = 400,
                   json = JObj [(''error'', JStr (message err)),
                                (''code'', JStr ''DECODING_FAILED'')] \<rparr>)))"
proof -
  define d where "d = get_prop (body req) ''digipin''"
  define q where "q = get_prop (query req) ''digipin''"
  define pout where "pout = post_decode getLatLngFromDigiPin message req"
  define gout where "gout = get_decode getLatLngFromDigiPin message req"
  have blank_empty: "is_blank []" by (simp add: is_blank_def)
  have p1: "status (fst pout) = 400 \<and> error_code (fst pout) = JStr ''MISSING_DIGIPIN'' \<and>
            snd pout = [] \<and> post_decode otherLatLng otherMessage req = pout"
    if "is_missing d"
    using that unfolding pout_def post_decode_def d_def [symmetric]
    by (auto simp: Let_def is_missing_def error_code_def get_prop_def)
  have p2: "status (fst pout) = 400 \<and> error_code (fst pout) = JStr ''INVALID_DIGIPIN_TYPE'' \<and>
            snd pout = [] \<and> post_decode otherLatLng otherMessage req = pout"
    if "\<not> is_missing d" "typeof d \<noteq> ''string''"
    using that unfolding pout_def post_decode_def d_def [symmetric]
    by (cases d) (auto simp: Let_def is_missing_def error_code_def get_prop_def)
  have p3: "status (fst pout) = 400 \<and> error_code (fst pout) = JStr ''INVALID_DIGIPIN'' \<and>
            snd pout = [] \<and> post_decode otherLatLng otherMessage req = pout"
    if "d = JStr s" "is_blank s" for s
    using that unfolding pout_def post_decode_def d_def [symmetric]
    by (simp add: Let_def error_code_def get_prop_def isValidString_iff)
  have p4: "snd pout = [s] \<and>
            fst pout =
              (case getLatLngFromDigiPin s of
                 Inr coords \<Rightarrow> \<lparr> status = 200, json = coords \<rparr>
               | Inl err \<Rightarrow>
                   \<lparr> status = 400,
                     json = JObj [(''error'', JStr (message err)),
                                  (''code'', JStr ''DECODING_FAILED'')] \<rparr>)"
    if "d = JStr s" "\<not> is_blank s" for s
    using that unfolding pout_def post_decode_def d_def [symmetric]
    by (simp add: Let_def isValidString_iff split: sum.splits)
  have g1: "status (fst gout) = 400 \<and> error_code (fst gout) = JStr ''MISSING_DIGIPIN'' \<and>
            snd gout = [] \<and> get_decode otherLatLng otherMessage req = gout"
    if "\<not> truthy q"
    using that unfolding gout_def get_decode_def q_def [symmetric]
    by (simp add: Let_def error_code_def get_prop_def)
  have g2: "status (fst gout) = 400 \<and> error_code (fst gout) = JStr ''INVALID_DIGIPIN_TYPE'' \<and>
            snd gout = [] \<and> get_decode otherLatLng otherMessage req = gout"
    if "truthy q" "typeof q \<noteq> ''string''"
    using that unfolding gout_def get_decode_def q_def [symmetric]
    by (cases q) (auto simp: Let_def error_code_def get_prop_def)
  have g3: "status (fst gout) = 400 \<and> error_code (fst gout) = JStr ''INVALID_DIGIPIN'' \<and>
            snd gout = [] \<and> get_decode otherLatLng otherMessage req = gout"
    if "q = JStr s" "s \<noteq> []" "is_blank s" for s
    using that unfolding gout_def get_decode_def q_def [symmetric]
    by (simp add: Let_def error_code_def get_prop_def isValidString_iff)
  have g4: "snd gout = [s] \<and>
            fst gout =
              (case getLatLngFromDigiPin s of
                 Inr coords \<Rightarrow> \<lparr> status = 200, json = coords \<rparr>
               | Inl err \<Rightarrow>
                   \<lparr> status = 400,
                     json = JObj [(''error'', JStr (message err)),
                                  (''code'', JStr ''DECODING_FAILED'')] \<rparr>)"
    if "q = JStr s" "\<not> is_blank s" for s
  proof -
    from that(2) blank_empty have "s \<noteq> []" by auto
    with that show ?thesis
      unfolding gout_def get_decode_def q_def [symmetric]
      by (simp add: Let_def isValidString_iff split: sum.splits)
  qed
  from p1 p2 p3 p4 g1 g2 g3 g4 show ?thesis
    unfolding Let_def d_def q_def pout_def gout_def by blast
qed

theorem decode_input_gating_witness:
  "post_decode example_getLatLngFromDigiPin kind_name
     (post_request ''/api/digipin/decode'' [])
     = (\<lparr> status = 400,
          json = JObj [(''error'', JStr ''Missing required field: digipin''),
                       (''code'', JStr ''MISSING_DIGIPIN'')] \<rparr>, []) \<and>
   post_decode example_getLatLngFromDigiPin kind_name
     (post_request ''/api/digipin/decode'' [(''digipin'', JNum (Finite 5))])
     = (\<lparr> status = 400,
          json = JObj [(''error'',
                        JStr ''Invalid digipin type: expected string, received number''),
                       (''code'', JStr ''INVALID_DIGIPIN_TYPE''),
                       (''receivedType'', JStr ''number'')] \<rparr>, []) \<and>
   error_code (fst (post_decode example_getLatLngFromDigiPin kind_name
     (post_request ''/api/digipin/decode'' [(''digipin'', JStr [])])))
     = JStr ''INVALID_DIGIPIN'' \<and>
   error_code (fst (get_decode example_getLatLngFromDigiPin kind_name
     (get_request ''/api/digipin/decode'' [(''digipin'', JStr ''  '')])))
     = JStr ''INVALID_DIGIPIN'' \<and>
   post_decode example_getLatLngFromDigiPin kind_name
     (post_request ''/api/digipin/decode'' [(''digipin'', JStr ''39J-49L-L8T!'')])
     = (\<lparr> status = 400,
          json = JObj [(''error'', JStr ''InvalidCodeSymbol''),
                       (''code'', JStr ''DECODING_FAILED'')] \<rparr>, [''39J-49L-L8T!'']) \<and>
   get_decode example_getLatLngFromDigiPin kind_name
     (get_request ''/api/digipin/decode'' [(''digipin'', JStr ''39J-49L'')])
     = (\<lparr> status = 400,
          json = JObj [(''error'', JStr ''InvalidCodeLength''),
                       (''code'', JStr ''DECODING_FAILED'')] \<rparr>, [''39J-49L''])"
proof -
  define p3 where "p3 = post_request ''/api/digipin/decode'' [(''digipin'', JStr [])]"
  define g3 where "g3 = get_request ''/api/digipin/decode'' [(''digipin'', JStr ''  '')]"
  define p4 where
    "p4 = post_request ''/api/digipin/decode'' [(''digipin'', JStr ''39J-49L-L8T!'')]"
  define g4 where "g4 = get_request ''/api/digipin/decode'' [(''digipin'', JStr ''39J-49L'')]"
  have 1: "post_decode example_getLatLngFromDigiPin kind_name
     (post_request ''/api/digipin/decode'' [])
     = (\<lparr> status = 400,
          json = JObj [(''error'', JStr ''Missing required field: digipin''),
                       (''code'', JStr ''MISSING_DIGIPIN'')] \<rparr>, [])"
    by (simp add: post_decode_def post_request_def get_prop_def)
  have 2: "post_decode example_getLatLngFromDigiPin kind_name
     (post_request ''/api/digipin/decode'' [(''digipin'', JNum (Finite 5))])
     = (\<lparr> status = 400,
          json = JObj [(''error'',
                        JStr ''Invalid digipin type: expected string, received number''),
                       (''code'', JStr ''INVALID_DIGIPIN_TYPE''),
                       (''receivedType'', JStr ''number'')] \<rparr>, [])"
    by (simp add: post_decode_def post_request_def get_prop_def)
  have f: "get_prop (body p3) ''digipin'' = JStr []"
          "get_prop (query g3) ''digipin'' = JStr ''  ''"
          "get_prop (body p4) ''digipin'' = JStr ''39J-49L-L8T!''"
          "get_prop (query g4) ''digipin'' = JStr ''39J-49L''"
    by (simp_all add: p3_def g3_def p4_def g4_def post_request_def get_request_def
          get_prop_def)
  have 3: "error_code (fst (post_decode example_getLatLngFromDigiPin kind_name p3))
             = JStr ''INVALID_DIGIPIN''"
    using decode_input_gating [of p3 example_getLatLngFromDigiPin kind_name
            example_getLatLngFromDigiPin kind_name]
      f blank_example
    by (simp add: Let_def)
  have 4: "error_code (fst (get_decode example_getLatLngFromDigiPin kind_name g3))
             = JStr ''INVALID_DIGIPIN''"
    using decode_input_gating [of g3 example_getLatLngFromDigiPin kind_name
            example_getLatLngFromDigiPin kind_name]
      f blank_example
    by (simp add: Let_def)
  have 5: "post_decode example_getLatLngFromDigiPin kind_name p4
     = (\<lparr> status = 400,
          json = JObj [(''error'', JStr ''InvalidCodeSymbol''),
                       (''code'', JStr ''DECODING_FAILED'')] \<rparr>, [''39J-49L-L8T!''])"
    using decode_input_gating [of p4 example_getLatLngFromDigiPin kind_name
            example_getLatLngFromDigiPin kind_name]
      f not_blank_example
    by (simp add: Let_def example_decode_bad_symbol prod_eq_iff)
  have 6: "get_decode example_getLatLngFromDigiPin kind_name g4
     = (\<lparr> status = 400,
          json = JObj [(''error'', JStr ''InvalidCodeLength''),
                       (''code'', JStr ''DECODING_FAILED'')] \<rparr>, [''39J-49L''])"
    using decode_input_gating [of g4 example_getLatLngFromDigiPin kind_name
            example_getLatLngFromDigiPin kind_name]
      f not_blank_example
    by (simp add: Let_def example_decode_short prod_eq_iff)
  from 1 2 3 4 5 6 show ?thesis unfolding p3_def g3_def p4_def g4_def by simp
qed

text \<open>
  C9, lenient numeric validation. A string whose \<^verbatim>\<open>parseFloat\<close> result is a
  finite number is a valid number for \<^verbatim>\<open>isValidNumber\<close>, whatever follows the
  numeric prefix; \<open>77.2abc\<close> is such a string, with result 77.2. Both encode routes
  accept such strings as latitude and longitude: they call the core once with the
  parsed numbers, the response is made from what that call returns (status 200 with
  the code, or status 400 with the failure's message and \<open>ENCODING_FAILED\<close>), and it
  is never \<open>INVALID_LATITUDE\<close> or \<open>INVALID_LONGITUDE\<close>.
\<close>

theorem lenient_numeric_validation:
  fixes getDigiPin :: "jsnum \<Rightarrow> jsnum \<Rightarrow> 'e + string"
  assumes "parseFloat s = Finite x" "parseFloat t = Finite y"
  shows "isValidNumber (JStr s) \<and>
         parseFloat ''77.2abc'' = Finite (772 / 10) \<and>
         (get_prop (body req) ''latitude'' = JStr s \<and>
          get_prop (body req) ''longitude'' = JStr t \<longrightarrow>
            snd (post_encode getDigiPin message req) = [(Finite x, Finite y)] \<and>
            fst (post_encode getDigiPin message req) =
              (case getDigiPin (Finite x) (Finite y) of
                 Inr code \<Rightarrow> \<lparr> status = 200, json = JObj [(''digipin'', JStr code)] \<rparr>
               | Inl err \<Rightarrow>
                   \<lparr> status = 400,
                     json = JObj [(''error'', JStr (message err)),
                                  (''code'', JStr ''ENCODING_FAILED'')] \<rparr>) \<and>
            error_code (fst (post_encode getDigiPin message req)) \<noteq> JStr ''INVALID_LATITUDE'' \<and>
            error_code (fst (post_encode getDigiPin message req)) \<noteq> JStr ''INVALID_LONGITUDE'') \<and>
         (get_prop (query req) ''latitude'' = JStr s \<and>
          get_prop (query req) ''longitude'' = JStr t \<longrightarrow>
            snd (get_encode getDigiPin message req) = [(Finite x, Finite y)] \<and>
            fst (get_encode getDigiPin message req) =
              (case getDigiPin (Finite x) (Finite y) of
                 Inr code \<Rightarrow> \<lparr> status = 200, json = JObj [(''digipin'', JStr code)] \<rparr>
               | Inl err \<Rightarrow>
                   \<lparr> status = 400,
                     json = JObj [(''error'', JStr (message err)),
                                  (''code'', JStr ''ENCODING_FAILED'')] \<rparr>) \<and>
            error_code (fst (get_encode getDigiPin message req)) \<noteq> JStr ''INVALID_LATITUDE'' \<and>
            error_code (fst (get_encode getDigiPin message req)) \<noteq> JStr ''INVALID_LONGITUDE'')"
proof -
  have vs: "isValidNumber (JStr s)" and vt: "isValidNumber (JStr t)"
    using assms by (simp_all add: isValidNumber_def isNaN_def isFinite_def)
  have ne: "s \<noteq> []" "t \<noteq> []"
    using assms by (auto simp: parseFloat_empty)
  have post: "snd (post_encode getDigiPin message req) = [(Finite x, Finite y)] \<and>
      fst (post_encode getDigiPin message req) =
        (case getDigiPin (Finite x) (Finite y) of
           Inr code \<Rightarrow> \<lparr> status = 200, json = JObj [(''digipin'', JStr code)] \<rparr>
         | Inl err \<Rightarrow>
             \<lparr> status = 400,
               json = JObj [(''error'', JStr (message err)),
                            (''code'', JStr ''ENCODING_FAILED'')] \<rparr>) \<and>
      error_code (fst (post_encode getDigiPin message req)) \<noteq> JStr ''INVALID_LATITUDE'' \<and>
      error_code (fst (post_encode getDigiPin message req)) \<noteq> JStr ''INVALID_LONGITUDE''"
    if "get_prop (body req) ''latitude'' = JStr s" "get_prop (body req) ''longitude'' = JStr t"
    using that vs vt assms
    by (cases "getDigiPin (Finite x) (Finite y)")
       (simp_all add: post_encode_def Let_def error_code_def get_prop_def)
  have get: "snd (get_encode getDigiPin message req) = [(Finite x, Finite y)] \<and>
      fst (get_encode getDigiPin message req) =
        (case getDigiPin (Finite x) (Finite y) of
           Inr code \<Rightarrow> \<lparr> status = 200, json = JObj [(''digipin'', JStr code)] \<rparr>
         | Inl err \<Rightarrow>
             \<lparr> status = 400,
               json = JObj [(''error'', JStr (message err)),
                            (''code'', JStr ''ENCODING_FAILED'')] \<rparr>) \<and>
      error_code (fst (get_encode getDigiPin message req)) \<noteq> JStr ''INVALID_LATITUDE'' \<and>
      error_code (fst (get_encode getDigiPin message req)) \<noteq> JStr ''INVALID_LONGITUDE''"
    if "get_prop (query req) ''latitude'' = JStr s" "get_prop (query req) ''longitude'' = JStr t"
    using that vs vt ne assms
    by (cases "getDigiPin (Finite x) (Finite y)")
       (simp_all add: get_encode_def Let_def error_code_def get_prop_def)
  from vs post get parseFloat_trailing show ?thesis by blast
qed

theorem lenient_numeric_validation_witness:
  "parseFloat ''38.5xyz'' = Finite (77 / 2) \<and>
   parseFloat ''99.5abc'' = Finite (199 / 2) \<and>
   parseFloat ''77.2abc'' = Finite (772 / 10) \<and>
   isValidNumber (JStr ''38.5xyz'') \<and>
   post_encode example_getDigiPin kind_name
     (post_request ''/api/digipin/encode''
        [(''latitude'', JStr ''38.5xyz''), (''longitude'', JStr ''99.5abc'')])
     = (\<lparr> status = 200, json = JObj [(''digipin'', JStr ''888-888-8888'')] \<rparr>,
        [(Finite (77 / 2), Finite (199 / 2))]) \<and>
   get_encode example_getDigiPin kind_name
     (get_request ''/api/digipin/encode''
        [(''latitude'', JStr ''38.5xyz''), (''longitude'', JStr ''99.5abc'')])
     = (\<lparr> status = 200, json = JObj [(''digipin'', JStr ''888-888-8888'')] \<rparr>,
        [(Finite (77 / 2), Finite (199 / 2))])"
proof -
  define p where "p = post_request ''/api/digipin/encode''
        [(''latitude'', JStr ''38.5xyz''), (''longitude'', JStr ''99.5abc'')]"
  define g where "g = get_request ''/api/digipin/encode''
        [(''latitude'', JStr ''38.5xyz''), (''longitude'', JStr ''99.5abc'')]"
  have f: "get_prop (body p) ''latitude'' = JStr ''38.5xyz''"
          "get_prop (body p) ''longitude'' = JStr ''99.5abc''"
          "get_prop (query g) ''latitude'' = JStr ''38.5xyz''"
          "get_prop (query g) ''longitude'' = JStr ''99.5abc''"
    by (simp_all add: p_def g_def post_request_def get_request_def get_prop_def)
  note tp = lenient_numeric_validation [OF parseFloat_corner,
             of p example_getDigiPin kind_name]
  note tg = lenient_numeric_validation [OF parseFloat_corner,
             of g example_getDigiPin kind_name]
  from tp have v: "isValidNumber (JStr ''38.5xyz'')" by blast
  from tp f have "snd (post_encode example_getDigiPin kind_name p)
           = [(Finite (77 / 2), Finite (199 / 2))]"
    and "fst (post_encode example_getDigiPin kind_name p)
           = \<lparr> status = 200, json = JObj [(''digipin'', JStr ''888-888-8888'')] \<rparr>"
    by (simp_all add: example_getDigiPin_corner)
  then have 1: "post_encode example_getDigiPin kind_name p
     = (\<lparr> status = 200, json = JObj [(''digipin'', JStr ''888-888-8888'')] \<rparr>,
        [(Finite (77 / 2), Finite (199 / 2))])"
    by (simp add: prod_eq_iff)
  from tg f have "snd (get_encode example_getDigiPin kind_name g)
           = [(Finite (77 / 2), Finite (199 / 2))]"
    and "fst (get_encode example_getDigiPin kind_name g)
           = \<lparr> status = 200, json = JObj [(''digipin'', JStr ''888-888-8888'')] \<rparr>"
    by (simp_all add: example_getDigiPin_corner)
  then have 2: "get_encode example_getDigiPin kind_name g
     = (\<lparr> status = 200, json = JObj [(''digipin'', JStr ''888-888-8888'')] \<rparr>,
        [(Finite (77 / 2), Finite (199 / 2))])"
    by (simp add: prod_eq_iff)
  from parseFloat_corner parseFloat_trailing v 1 2 show ?thesis
    unfolding p_def g_def by simp
qed

text \<open>
  C10, content-type gate. A POST, PUT or PATCH request whose Content-Type header is
  absent or does not include \<open>application/json\<close> ends in the first middleware with
  status 415 and the code \<open>INVALID_CONTENT_TYPE\<close>: the response is the same whatever
  the path and whatever is registered after the middleware, none of which runs. A GET
  request is never rejected by this check and goes on to the rest of the application.
\<close>

theorem content_type_gate:
  "((method req = ''POST'' \<or> method req = ''PUT'' \<or> method req = ''PATCH'') \<and>
    (map_of (headers req) ''content-type'' = None \<or>
     (\<exists>ct. map_of (headers req) ''content-type'' = Some ct \<and>
           \<not> str_includes ct ''application/json'')) \<longrightarrow>
      (\<exists>res. app rest req = Inl res \<and> status res = 415 \<and>
             error_code res = JStr ''INVALID_CONTENT_TYPE'')) \<and>
   (method req = ''GET'' \<longrightarrow>
      validateJsonContentType req = None \<and> app rest req = Inr (rest req))"
  by (auto simp: app_def validateJsonContentType_def Let_def error_code_def get_prop_def)

theorem content_type_gate_witness:
  "(\<exists>res. app (get_encode example_getDigiPin kind_name)
            \<lparr> method = ''POST'', path = ''/api/digipin/encode'',
              headers = [(''content-type'', ''text/plain'')],
              body = [], query = [] \<rparr> = Inl res \<and>
          status res = 415 \<and> error_code res = JStr ''INVALID_CONTENT_TYPE'') \<and>
   app (get_encode example_getDigiPin kind_name) (get_request ''/api/digipin/encode'' [])
     = Inr (get_encode example_getDigiPin kind_name
              (get_request ''/api/digipin/encode'' []))"
proof -
  define p where "p = \<lparr> method = ''POST'', path = ''/api/digipin/encode'',
              headers = [(''content-type'', ''text/plain'')],
              body = [], query = [] \<rparr>"
  have "\<not> str_includes ''text/plain'' ''application/json''"
    by (simp add: starts_with_def)
  then have h: "(method p = ''POST'' \<or> method p = ''PUT'' \<or> method p = ''PATCH'') \<and>
      (map_of (headers p) ''content-type'' = None \<or>
       (\<exists>ct. map_of (headers p) ''content-type'' = Some ct \<and>
             \<not> str_includes ct ''application/json''))"
    by (simp add: p_def)
  have g: "method (get_request ''/api/digipin/encode'' []) = ''GET''"
    by (simp add: get_request_def)
  from h g
    content_type_gate [of p "get_encode example_getDigiPin kind_name"]
    content_type_gate [of "get_request ''/api/digipin/encode'' []"
      "get_encode example_getDigiPin kind_name"]
  show ?thesis unfolding p_def by blast
qed

end
